theory Spec2Isabelle
  imports Complex_Main "HOL-Library.Char_ord" "HOL-Library.List_Lexorder" "HOL-Library.Sublist"
    "HOL-Library.Multiset"
begin

section \<open>Values shared by the front end\<close>

text \<open>
  JavaScript numbers are modelled as real numbers. In the placement code sums, products
  and comparisons are the exact ones, so rounding of binary floating point is outside the
  model there. The one sum of the anchor store, \<^verbatim>\<open>position[0] + 1\<close>, is a parameter of the model, and so
  is the printing of a number that is not a whole number below \<open>2\<^sup>5\<^sup>3\<close>. A three-element
  array \<^verbatim>\<open>[number, number, number]\<close>, an object \<^verbatim>\<open>{x, y, z}\<close>, a
  \<^verbatim>\<open>THREE.Vector3\<close> and a \<^verbatim>\<open>THREE.Euler\<close> (default order XYZ) are all a
  triple of reals.

  TypeScript's unions of string literals (\<^verbatim>\<open>AnchorType\<close>, \<^verbatim>\<open>ConnectionAxis\<close>,
  \<^verbatim>\<open>AnchorDirection\<close>) are erased at run time and the code casts plain strings into
  them (\<^verbatim>\<open>ap.name as AnchorType\<close>), so the model keeps them as strings; membership in
  the union is a predicate.
\<close>

type_synonym vec3 = "real \<times> real \<times> real"
type_synonym AnchorType = string
type_synonym ConnectionAxis = string
type_synonym AnchorDirection = string

datatype js_error = TypeError

text \<open>Decimal rendering of a non-negative whole number, as a template literal prints it.\<close>

definition digit_char :: "nat \<Rightarrow> char" where
  "digit_char d = ''0123456789'' ! d"

function show_nat :: "nat \<Rightarrow> string" where
  "show_nat n = (if n < 10 then [digit_char n] else show_nat (n div 10) @ [digit_char (n mod 10)])"
  by pat_completeness auto
termination
  by (relation "measure (\<lambda>n. n)") auto

declare show_nat.simps [simp del]

section \<open>Anchor store: \<^verbatim>\<open>store/useAnchorStore.ts\<close>\<close>

record Anchor =
  anchor_id :: string
  anchor_type :: AnchorType
  label :: string
  position :: vec3
  rotation :: vec3
  direction :: AnchorDirection
  connectionAxis :: ConnectionAxis
  compatibleWith :: "AnchorType list"

record AnchorState =
  anchors :: "Anchor list"
  selectedAnchorId :: "string option"

record AnchorTypeInfo =
  info_label :: string
  info_direction :: AnchorDirection
  defaultAxis :: ConnectionAxis
  defaultCompatible :: "AnchorType list"
  info_category :: string

definition mk_info ::
  "string \<Rightarrow> AnchorDirection \<Rightarrow> ConnectionAxis \<Rightarrow> AnchorType list \<Rightarrow> string \<Rightarrow> AnchorTypeInfo" where
  "mk_info l d ax c cat =
     \<lparr>info_label = l, info_direction = d, defaultAxis = ax, defaultCompatible = c,
      info_category = cat\<rparr>"

text \<open>The table \<^verbatim>\<open>ANCHOR_TYPE_INFO\<close>, row by row. The double quote of the two drive-bay
  labels is character 0x22.\<close>

definition ANCHOR_TYPE_TABLE :: "(AnchorType \<times> AnchorTypeInfo) list" where
  "ANCHOR_TYPE_TABLE =
   [(''cpu_socket'', mk_info ''CPU Socket'' ''output'' ''Y_NEG'' [''cpu_bottom''] ''motherboard''),
    (''ram_slot'', mk_info ''RAM Slot'' ''output'' ''Y_NEG'' [''ram_edge''] ''motherboard''),
    (''pcie_x16'', mk_info ''PCIe x16 Slot'' ''output'' ''Z_NEG'' [''pcie_edge''] ''motherboard''),
    (''pcie_x4'', mk_info ''PCIe x4 Slot'' ''output'' ''Z_NEG'' [''pcie_edge''] ''motherboard''),
    (''pcie_x1'', mk_info ''PCIe x1 Slot'' ''output'' ''Z_NEG'' [''pcie_edge''] ''motherboard''),
    (''m2_slot'', mk_info ''M.2 Slot'' ''output'' ''Z_NEG'' [''m2_edge''] ''motherboard''),
    (''sata_port'', mk_info ''SATA Port'' ''output'' ''Z_NEG'' [''sata_plug''] ''motherboard''),
    (''cooler_plate'', mk_info ''Cooler Plate'' ''output'' ''Y_POS'' [''cooler_base''] ''cpu''),
    (''mobo_mount_area'',
       mk_info ''Motherboard Mount Area'' ''output'' ''Y_POS'' [''mobo_backplate''] ''case''),
    (''psu_bay'', mk_info ''PSU Bay'' ''output'' ''Z_NEG'' [''psu_mount''] ''case''),
    (''fan_mount_120'', mk_info ''Fan Mount 120mm'' ''output'' ''Z_NEG'' [''fan_mount''] ''case''),
    (''fan_mount_140'', mk_info ''Fan Mount 140mm'' ''output'' ''Z_NEG'' [''fan_mount''] ''case''),
    (''drive_bay_25'',
       mk_info (''2.5'' @ [CHR 0x22] @ '' Drive Bay'') ''output'' ''Z_NEG'' [''drive_mount''] ''case''),
    (''drive_bay_35'',
       mk_info (''3.5'' @ [CHR 0x22] @ '' Drive Bay'') ''output'' ''Z_NEG'' [''drive_mount''] ''case''),
    (''cpu_bottom'', mk_info ''CPU Contact'' ''input'' ''Y_NEG'' [''cpu_socket''] ''component''),
    (''cooler_base'', mk_info ''Cooler Base'' ''input'' ''Y_POS'' [''cooler_plate''] ''component''),
    (''ram_edge'', mk_info ''RAM Edge'' ''input'' ''Y_NEG'' [''ram_slot''] ''component''),
    (''pcie_edge'',
       mk_info ''PCIe Edge'' ''input'' ''Z_NEG'' [''pcie_x16'', ''pcie_x4'', ''pcie_x1''] ''component''),
    (''m2_edge'', mk_info ''M.2 Edge'' ''input'' ''Z_NEG'' [''m2_slot''] ''component''),
    (''sata_plug'', mk_info ''SATA Plug'' ''input'' ''Z_NEG'' [''sata_port''] ''component''),
    (''mobo_backplate'',
       mk_info ''Motherboard Backplate'' ''input'' ''Y_NEG'' [''mobo_mount_area''] ''component''),
    (''psu_mount'', mk_info ''PSU Mount'' ''input'' ''Z_NEG'' [''psu_bay''] ''component''),
    (''fan_mount'',
       mk_info ''Fan Mount'' ''input'' ''Z_NEG'' [''fan_mount_120'', ''fan_mount_140''] ''component''),
    (''drive_mount'',
       mk_info ''Drive Mount'' ''input'' ''Z_NEG'' [''drive_bay_25'', ''drive_bay_35''] ''component'')]"

text \<open>\<^verbatim>\<open>ANCHOR_TYPE_INFO[type]\<close>: the row of a type of the union, \<^verbatim>\<open>undefined\<close>
  (here \<open>None\<close>) for any other string. The keys that every JavaScript object inherits
  (\<^verbatim>\<open>constructor\<close>, \<^verbatim>\<open>toString\<close> and the like) are left out of the model.\<close>

definition ANCHOR_TYPE_INFO :: "AnchorType \<Rightarrow> AnchorTypeInfo option" where
  "ANCHOR_TYPE_INFO t = map_of ANCHOR_TYPE_TABLE t"

text \<open>\<^verbatim>\<open>getDefaultLabel\<close>: reading \<^verbatim>\<open>info.label\<close> of an undefined row throws.\<close>

definition getDefaultLabel :: "AnchorType \<Rightarrow> Anchor list \<Rightarrow> js_error + string" where
  "getDefaultLabel t existingAnchors =
     (case ANCHOR_TYPE_INFO t of
        None \<Rightarrow> Inl TypeError
      | Some info \<Rightarrow>
          (let sameTypeCount = length (filter (\<lambda>a. anchor_type a = t) existingAnchors) + 1
           in Inr (info_label info @ '' '' @ show_nat sameTypeCount)))"

text \<open>The store's actions. Each takes the state that zustand's \<^verbatim>\<open>set\<close> hands to the
  updater and returns the state after the merge; an action whose updater throws leaves the
  store as it was and returns the error. The identifier that \<^verbatim>\<open>uuidv4()\<close> returns is
  the argument \<open>newId\<close>; the store never compares it with the ids in use. The sum of two
  numbers as the runtime computes it (in double precision) is the argument \<open>jsAdd\<close>. An
  optional argument is an \<open>option\<close>; \<^verbatim>\<open>label || ...\<close> takes the right operand for an
  absent or empty label.\<close>

definition addAnchor ::
  "AnchorState \<Rightarrow> AnchorType \<Rightarrow> string option \<Rightarrow> string \<Rightarrow> js_error + AnchorState" where
  "addAnchor state t lbl newId =
     (case ANCHOR_TYPE_INFO t of
        None \<Rightarrow> Inl TypeError
      | Some info \<Rightarrow>
          (case (case lbl of
                   Some l \<Rightarrow> if l \<noteq> [] then Inr l else getDefaultLabel t (anchors state)
                 | None \<Rightarrow> getDefaultLabel t (anchors state)) of
             Inl e \<Rightarrow> Inl e
           | Inr l \<Rightarrow>
               Inr \<lparr>anchors = anchors state @
                       [\<lparr>anchor_id = newId, anchor_type = t, label = l,
                         position = (0, 0, 0), rotation = (0, 0, 0),
                         direction = info_direction info,
                         connectionAxis = defaultAxis info,
                         compatibleWith = defaultCompatible info\<rparr>],
                     selectedAnchorId = None\<rparr>))"

definition duplicateAnchor ::
  "(real \<Rightarrow> real \<Rightarrow> real) \<Rightarrow> AnchorState \<Rightarrow> string \<Rightarrow> string \<Rightarrow> js_error + AnchorState" where
  "duplicateAnchor jsAdd state i newId =
     (case find (\<lambda>a. anchor_id a = i) (anchors state) of
        None \<Rightarrow> Inr state
      | Some anchor \<Rightarrow>
          (case getDefaultLabel (anchor_type anchor) (anchors state) of
             Inl e \<Rightarrow> Inl e
           | Inr l \<Rightarrow>
               (let newAnchor = anchor
                      \<lparr>anchor_id := newId, label := l,
                       position := (case position anchor of (p0, p1, p2) \<Rightarrow> (jsAdd p0 1, p1, p2))\<rparr>
                in Inr \<lparr>anchors = anchors state @ [newAnchor],
                        selectedAnchorId = Some (anchor_id newAnchor)\<rparr>)))"

text \<open>The \<^verbatim>\<open>updates\<close> argument of \<^verbatim>\<open>updateAnchor\<close>: any subset of six fields.\<close>

record AnchorUpdates =
  u_position :: "vec3 option"
  u_rotation :: "vec3 option"
  u_direction :: "AnchorDirection option"
  u_label :: "string option"
  u_connectionAxis :: "ConnectionAxis option"
  u_compatibleWith :: "AnchorType list option"

definition orElse :: "'a option \<Rightarrow> 'a \<Rightarrow> 'a" where
  "orElse v d = (case v of Some w \<Rightarrow> w | None \<Rightarrow> d)"

text \<open>The spread \<^verbatim>\<open>{ ...anchor, ...updates }\<close>.\<close>

definition spreadUpdates :: "Anchor \<Rightarrow> AnchorUpdates \<Rightarrow> Anchor" where
  "spreadUpdates anchor updates =
     anchor\<lparr>position := orElse (u_position updates) (position anchor),
            rotation := orElse (u_rotation updates) (rotation anchor),
            direction := orElse (u_direction updates) (direction anchor),
            label := orElse (u_label updates) (label anchor),
            connectionAxis := orElse (u_connectionAxis updates) (connectionAxis anchor),
            compatibleWith := orElse (u_compatibleWith updates) (compatibleWith anchor)\<rparr>"

definition updateAnchor :: "AnchorState \<Rightarrow> string \<Rightarrow> AnchorUpdates \<Rightarrow> AnchorState" where
  "updateAnchor state i updates =
     state\<lparr>anchors :=
       map (\<lambda>anchor. if anchor_id anchor = i then spreadUpdates anchor updates else anchor)
         (anchors state)\<rparr>"

definition selectAnchor :: "AnchorState \<Rightarrow> string option \<Rightarrow> AnchorState" where
  "selectAnchor state i = state\<lparr>selectedAnchorId := i\<rparr>"

definition removeAnchor :: "AnchorState \<Rightarrow> string \<Rightarrow> AnchorState" where
  "removeAnchor state i =
     \<lparr>anchors = filter (\<lambda>a. anchor_id a \<noteq> i) (anchors state),
      selectedAnchorId =
        (if selectedAnchorId state = Some i then None else selectedAnchorId state)\<rparr>"

definition setAnchors :: "AnchorState \<Rightarrow> Anchor list \<Rightarrow> AnchorState" where
  "setAnchors state as = \<lparr>anchors = as, selectedAnchorId = None\<rparr>"

definition clearAnchors :: "AnchorState \<Rightarrow> AnchorState" where
  "clearAnchors state = \<lparr>anchors = [], selectedAnchorId = None\<rparr>"

section \<open>Persisted anchors: \<^verbatim>\<open>components/admin/ProductForm.tsx\<close>\<close>

text \<open>\<^verbatim>\<open>BackendAnchorPoint\<close>: the persisted representation; \<^verbatim>\<open>connection_axis\<close>
  and \<^verbatim>\<open>compatible_types\<close> are optional.\<close>

record BackendAnchorPoint =
  bp_name :: string
  bp_label :: string
  bp_position :: vec3
  bp_rotation :: vec3
  bp_direction :: string
  bp_connection_axis :: "string option"
  bp_compatible_types :: "string list option"

text \<open>\<^verbatim>\<open>s || d\<close> on a string: the empty string is falsy.\<close>

definition strOr :: "string \<Rightarrow> string \<Rightarrow> string" where
  "strOr s d = (if s \<noteq> [] then s else d)"

text \<open>The \<^verbatim>\<open>anchor_points\<close> of \<^verbatim>\<open>productData\<close> in \<^verbatim>\<open>onSubmit\<close>. An array is
  truthy, so \<^verbatim>\<open>a.compatibleWith || []\<close> is \<^verbatim>\<open>a.compatibleWith\<close>.\<close>

definition serializeAnchor :: "Anchor \<Rightarrow> BackendAnchorPoint" where
  "serializeAnchor a =
     \<lparr>bp_name = anchor_type a,
      bp_label = label a,
      bp_position = (case position a of (p0, p1, p2) \<Rightarrow> (p0, p1, p2)),
      bp_rotation = (case rotation a of (r0, r1, r2) \<Rightarrow> (r0, r1, r2)),
      bp_direction = direction a,
      bp_connection_axis = Some (connectionAxis a),
      bp_compatible_types = Some (compatibleWith a)\<rparr>"

definition serializeAnchors :: "Anchor list \<Rightarrow> BackendAnchorPoint list" where
  "serializeAnchors as = map serializeAnchor as"

text \<open>The initialiser of the \<^verbatim>\<open>anchors\<close> state. \<open>now k\<close> is what \<^verbatim>\<open>Date.now()\<close>
  returns while element \<open>k\<close> is mapped.\<close>

definition parseAnchor :: "(nat \<Rightarrow> nat) \<Rightarrow> nat \<Rightarrow> BackendAnchorPoint \<Rightarrow> Anchor" where
  "parseAnchor now index ap =
     \<lparr>anchor_id = ''anchor-'' @ show_nat index @ ''-'' @ show_nat (now index),
      anchor_type = bp_name ap,
      label = strOr (bp_label ap) (''Anchor '' @ show_nat (index + 1)),
      position = (case bp_position ap of (px, py, pz) \<Rightarrow> (px, py, pz)),
      rotation = (case bp_rotation ap of (rx, ry, rz) \<Rightarrow> (rx, ry, rz)),
      direction = strOr (bp_direction ap) ''output'',
      connectionAxis = strOr (orElse (bp_connection_axis ap) []) ''Y_NEG'',
      compatibleWith = orElse (bp_compatible_types ap) []\<rparr>"

definition parseAnchors :: "(nat \<Rightarrow> nat) \<Rightarrow> BackendAnchorPoint list option \<Rightarrow> Anchor list" where
  "parseAnchors now anchor_points =
     (case anchor_points of
        None \<Rightarrow> []
      | Some aps \<Rightarrow>
          if length aps > 0
          then map (\<lambda>(index, ap). parseAnchor now index ap) (enumerate 0 aps)
          else [])"

text \<open>The members of the two enumerations an editor anchor carries.\<close>

definition is_AnchorDirection :: "string \<Rightarrow> bool" where
  "is_AnchorDirection d = (d \<in> set [''input'', ''output''])"

definition is_ConnectionAxis :: "string \<Rightarrow> bool" where
  "is_ConnectionAxis ax = (ax \<in> set [''Y_NEG'', ''Y_POS'', ''Z_NEG'', ''Z_POS'', ''X_NEG'', ''X_POS''])"

section \<open>Placement: \<^verbatim>\<open>components/builder/BuilderCanvas.tsx\<close>\<close>

definition SCALE_FACTOR :: real where
  "SCALE_FACTOR = 0.1"

text \<open>\<^verbatim>\<open>ApiAnchor\<close>: an anchor as the backend sends it.\<close>

record ApiAnchor =
  api_name :: string
  api_label :: string
  api_position :: vec3
  api_rotation :: vec3
  api_direction :: string
  api_connection_axis :: string
  api_compatible_types :: "string list"

definition convertApiAnchor :: "ApiAnchor \<Rightarrow> Anchor" where
  "convertApiAnchor apiAnchor =
     \<lparr>anchor_id = api_label apiAnchor,
      anchor_type = api_name apiAnchor,
      label = api_label apiAnchor,
      position = (case api_position apiAnchor of (px, py, pz) \<Rightarrow> (px, py, pz)),
      rotation = (case api_rotation apiAnchor of (rx, ry, rz) \<Rightarrow> (rx, ry, rz)),
      direction = api_direction apiAnchor,
      connectionAxis = api_connection_axis apiAnchor,
      compatibleWith = api_compatible_types apiAnchor\<rparr>"

definition convertApiAnchors :: "ApiAnchor list \<Rightarrow> Anchor list" where
  "convertApiAnchors apiAnchors = map convertApiAnchor apiAnchors"

text \<open>The attributes of \<^verbatim>\<open>technical_specs\<close> that the compatibility check reads, each with
  the type the product validator (\<^verbatim>\<open>lib/validators/product.ts\<close>) gives it; an absent
  attribute is \<open>None\<close>. \<open>spec_type\<close> is the attribute \<^verbatim>\<open>type\<close>.\<close>

record TechnicalSpecs =
  socket :: "string option"
  form_factor :: "string option"
  supported_motherboards :: "string list option"
  ram_type :: "string option"
  spec_type :: "string option"
  length_mm :: "real option"
  max_gpu_length_mm :: "real option"
  height_mm :: "real option"
  max_cpu_cooler_height_mm :: "real option"

text \<open>\<^verbatim>\<open>SelectedComponent\<close> (\<^verbatim>\<open>BuilderView.tsx\<close>) and its extension by
  \<^verbatim>\<open>stepId\<close>. \<^verbatim>\<open>quantity\<close> is a whole number of modules.\<close>

record SelectedComponent =
  component_id :: string
  component_name :: string
  category :: string
  price :: real
  model_url :: "string option"
  anchor_points :: "ApiAnchor list option"
  technical_specs :: "TechnicalSpecs option"
  quantity :: "nat option"

record StepComponent = SelectedComponent +
  stepId :: string

record ComponentTransform =
  t_position :: vec3
  t_rotation :: vec3

type_synonym transforms = "string \<Rightarrow> ComponentTransform option"

subsection \<open>Vectors and rotation (three.js)\<close>

definition vadd :: "vec3 \<Rightarrow> vec3 \<Rightarrow> vec3" where
  "vadd a b = (case a of (ax, ay, az) \<Rightarrow> case b of (bx, by, bz) \<Rightarrow> (ax + bx, ay + by, az + bz))"

definition vsub :: "vec3 \<Rightarrow> vec3 \<Rightarrow> vec3" where
  "vsub a b = (case a of (ax, ay, az) \<Rightarrow> case b of (bx, by, bz) \<Rightarrow> (ax - bx, ay - by, az - bz))"

text \<open>\<^verbatim>\<open>new THREE.Vector3(p[0] * SCALE_FACTOR, p[1] * SCALE_FACTOR, p[2] * SCALE_FACTOR)\<close>.\<close>

definition scaled :: "vec3 \<Rightarrow> vec3" where
  "scaled p = (case p of (p0, p1, p2) \<Rightarrow> (p0 * SCALE_FACTOR, p1 * SCALE_FACTOR, p2 * SCALE_FACTOR))"

type_synonym quaternion = "real \<times> real \<times> real \<times> real"

text \<open>\<^verbatim>\<open>Vector3.applyEuler\<close> of three.js, a library the repository imports:
  \<^verbatim>\<open>applyQuaternion(quaternion.setFromEuler(euler))\<close>, with the formulas of
  \<^verbatim>\<open>Quaternion.setFromEuler\<close> for the order XYZ and of \<^verbatim>\<open>Vector3.applyQuaternion\<close>.
  A quaternion is (x, y, z, w).\<close>

definition setFromEuler :: "vec3 \<Rightarrow> quaternion" where
  "setFromEuler e = (case e of (ex, ey, ez) \<Rightarrow>
     (let c1 = cos (ex / 2); c2 = cos (ey / 2); c3 = cos (ez / 2);
          s1 = sin (ex / 2); s2 = sin (ey / 2); s3 = sin (ez / 2)
      in (s1 * c2 * c3 + c1 * s2 * s3,
          c1 * s2 * c3 - s1 * c2 * s3,
          c1 * c2 * s3 + s1 * s2 * c3,
          c1 * c2 * c3 - s1 * s2 * s3)))"

definition applyQuaternion :: "vec3 \<Rightarrow> quaternion \<Rightarrow> vec3" where
  "applyQuaternion v q = (case v of (vx, vy, vz) \<Rightarrow> case q of (qx, qy, qz, qw) \<Rightarrow>
     (let tx = 2 * (qy * vz - qz * vy);
          ty = 2 * (qz * vx - qx * vz);
          tz = 2 * (qx * vy - qy * vx)
      in (vx + qw * tx + qy * tz - qz * ty,
          vy + qw * ty + qz * tx - qx * tz,
          vz + qw * tz + qx * ty - qy * tx)))"

definition applyEuler :: "vec3 \<Rightarrow> vec3 \<Rightarrow> vec3" where
  "applyEuler v e = applyQuaternion v (setFromEuler e)"

subsection \<open>\<^verbatim>\<open>componentTransforms\<close>, one definition per block of the memo\<close>

text \<open>\<^verbatim>\<open>xs.find(a => a.type === t)\<close>.\<close>

definition findType :: "AnchorType \<Rightarrow> Anchor list \<Rightarrow> Anchor option" where
  "findType t as = find (\<lambda>a. anchor_type a = t) as"

text \<open>\<^verbatim>\<open>convertApiAnchors(c.anchor_points || [])\<close>.\<close>

definition anchorsOf :: "'a StepComponent_scheme \<Rightarrow> Anchor list" where
  "anchorsOf c = convertApiAnchors (orElse (anchor_points c) [])"

definition identityTransform :: ComponentTransform where
  "identityTransform = \<lparr>t_position = (0, 0, 0), t_rotation = (0, 0, 0)\<rparr>"

text \<open>\<^verbatim>\<open>transforms[key] || { position: new THREE.Vector3(), rotation: new THREE.Euler() }\<close>.\<close>

definition transformOr :: "transforms \<Rightarrow> string \<Rightarrow> ComponentTransform" where
  "transformOr ts key = orElse (ts key) identityTransform"

definition findStep :: "string \<Rightarrow> StepComponent list \<Rightarrow> StepComponent option" where
  "findStep s selectedComponents = find (\<lambda>c. stepId c = s) selectedComponents"

definition motherboardTransform :: "StepComponent \<Rightarrow> StepComponent \<Rightarrow> ComponentTransform" where
  "motherboardTransform caseComponent moboComponent =
     (let caseAnchors = anchorsOf caseComponent;
          moboAnchors = anchorsOf moboComponent;
          mountArea = findType ''mobo_mount_area'' caseAnchors;
          moboBackplate = findType ''mobo_backplate'' moboAnchors
      in case mountArea of
           Some m \<Rightarrow>
             (let mountPos = scaled (position m);
                  mountPos' = (case moboBackplate of
                                 Some b \<Rightarrow> vsub mountPos (scaled (position b))
                               | None \<Rightarrow> mountPos);
                  mountRotation = (case rotation m of (r0, r1, r2) \<Rightarrow> (r0 + pi / 2, r1, r2))
              in \<lparr>t_position = mountPos', t_rotation = mountRotation\<rparr>)
         | None \<Rightarrow> \<lparr>t_position = (0, 1, 0), t_rotation = (0, 0, 0)\<rparr>)"

definition cpuTransform :: "transforms \<Rightarrow> StepComponent \<Rightarrow> StepComponent \<Rightarrow> ComponentTransform" where
  "cpuTransform ts moboComponent cpuComponent =
     (let moboAnchors = anchorsOf moboComponent;
          cpuAnchors = anchorsOf cpuComponent;
          socket = findType ''cpu_socket'' moboAnchors;
          cpuBottom = findType ''cpu_bottom'' cpuAnchors
      in case socket of
           Some sk \<Rightarrow>
             (let moboTransform = transformOr ts ''motherboard'';
                  socketOffset = applyEuler (scaled (position sk)) (t_rotation moboTransform);
                  cpuPos = vadd (t_position moboTransform) socketOffset;
                  cpuPos' = (case cpuBottom of
                               Some b \<Rightarrow>
                                 vsub cpuPos (applyEuler (scaled (position b)) (t_rotation moboTransform))
                             | None \<Rightarrow> cpuPos)
              in \<lparr>t_position = cpuPos', t_rotation = t_rotation moboTransform\<rparr>)
         | None \<Rightarrow> \<lparr>t_position = (0, 1.5, 0), t_rotation = (0, 0, 0)\<rparr>)"

definition coolerTransform :: "transforms \<Rightarrow> StepComponent \<Rightarrow> StepComponent \<Rightarrow> ComponentTransform" where
  "coolerTransform ts cpuComponent coolerComponent =
     (let cpuAnchors = anchorsOf cpuComponent;
          coolerAnchors = anchorsOf coolerComponent;
          coolerPlate = findType ''cooler_plate'' cpuAnchors;
          coolerBase = findType ''cooler_base'' coolerAnchors;
          cpuTransform = transformOr ts ''cpu''
      in case coolerPlate of
           Some pl \<Rightarrow>
             (let coolerRotation = vadd (t_rotation cpuTransform) (rotation pl);
                  plateOffset = applyEuler (scaled (position pl)) (t_rotation cpuTransform);
                  coolerPos = vadd (t_position cpuTransform) plateOffset;
                  coolerPos' = (case coolerBase of
                                  Some b \<Rightarrow> vsub coolerPos (applyEuler (scaled (position b)) coolerRotation)
                                | None \<Rightarrow> coolerPos)
              in \<lparr>t_position = coolerPos', t_rotation = coolerRotation\<rparr>)
         | None \<Rightarrow>
             \<lparr>t_position = (case t_position cpuTransform of (px, py, pz) \<Rightarrow> (px, py + 0.5, pz)),
              t_rotation = t_rotation cpuTransform\<rparr>)"

definition gpuTransform :: "transforms \<Rightarrow> StepComponent \<Rightarrow> StepComponent \<Rightarrow> ComponentTransform" where
  "gpuTransform ts moboComponent gpuComponent =
     (let moboAnchors = anchorsOf moboComponent;
          gpuAnchors = anchorsOf gpuComponent;
          pcie = findType ''pcie_x16'' moboAnchors;
          pcieEdge = findType ''pcie_edge'' gpuAnchors
      in case pcie of
           Some pc \<Rightarrow>
             (let moboTransform = transformOr ts ''motherboard'';
                  pcieOffset = applyEuler (scaled (position pc)) (t_rotation moboTransform);
                  gpuPos = vadd (t_position moboTransform) pcieOffset;
                  gpuPos' = (case pcieEdge of
                               Some ed \<Rightarrow>
                                 vsub gpuPos (applyEuler (scaled (position ed)) (t_rotation moboTransform))
                             | None \<Rightarrow> gpuPos);
                  gpuRotation = vadd (t_rotation moboTransform) (rotation pc)
              in \<lparr>t_position = gpuPos', t_rotation = gpuRotation\<rparr>)
         | None \<Rightarrow> \<lparr>t_position = (0, 0, 2), t_rotation = (0, 0, 0)\<rparr>)"

definition psuTransform :: "StepComponent \<Rightarrow> StepComponent \<Rightarrow> ComponentTransform" where
  "psuTransform caseComponent psuComponent =
     (let caseAnchors = anchorsOf caseComponent;
          psuAnchors = anchorsOf psuComponent;
          psuBay = findType ''psu_bay'' caseAnchors;
          psuMount = findType ''psu_mount'' psuAnchors
      in case psuBay of
           Some bay \<Rightarrow>
             (let psuPos = scaled (position bay);
                  psuPos' = (case psuMount of
                               Some m \<Rightarrow> vsub psuPos (scaled (position m))
                             | None \<Rightarrow> psuPos);
                  psuRotation = (case rotation bay of (r0, r1, r2) \<Rightarrow> (r0, r1, r2))
              in \<lparr>t_position = psuPos', t_rotation = psuRotation\<rparr>)
         | None \<Rightarrow> \<lparr>t_position = (0, - 2, 0), t_rotation = (0, 0, 0)\<rparr>)"

definition storageTransform ::
  "transforms \<Rightarrow> StepComponent option \<Rightarrow> StepComponent option \<Rightarrow> StepComponent
     \<Rightarrow> ComponentTransform" where
  "storageTransform ts caseComponent moboComponent storageComponent =
     (let moboAnchors = (case moboComponent of Some m \<Rightarrow> anchorsOf m | None \<Rightarrow> []);
          caseAnchors = (case caseComponent of Some c \<Rightarrow> anchorsOf c | None \<Rightarrow> []);
          storageAnchors = anchorsOf storageComponent;
          m2Slot = findType ''m2_slot'' moboAnchors;
          m2Edge = findType ''m2_edge'' storageAnchors
      in case (if moboComponent \<noteq> None then m2Slot else None) of
           Some sl \<Rightarrow>
             (let moboTransform = transformOr ts ''motherboard'';
                  slotOffset = applyEuler (scaled (position sl)) (t_rotation moboTransform);
                  storagePos = vadd (t_position moboTransform) slotOffset;
                  storagePos' = (case m2Edge of
                                   Some ed \<Rightarrow>
                                     vsub storagePos
                                       (applyEuler (scaled (position ed)) (t_rotation moboTransform))
                                 | None \<Rightarrow> storagePos)
              in \<lparr>t_position = storagePos', t_rotation = t_rotation moboTransform\<rparr>)
         | None \<Rightarrow>
             (case find (\<lambda>a. anchor_type a = ''drive_bay_25'' \<or> anchor_type a = ''drive_bay_35'')
                     caseAnchors of
                Some driveBay \<Rightarrow>
                  \<lparr>t_position = scaled (position driveBay),
                   t_rotation = (case rotation driveBay of (r0, r1, r2) \<Rightarrow> (r0, r1, r2))\<rparr>
              | None \<Rightarrow> \<lparr>t_position = (- 2, 0, 0), t_rotation = (0, 0, 0)\<rparr>))"

text \<open>The memo \<^verbatim>\<open>componentTransforms\<close> fills the record \<^verbatim>\<open>transforms\<close> block by
  block. Each block is a function from the record before it to the record after it; the
  memo runs them in the order of the source, starting from the entry of the case.\<close>

definition motherboardBlock :: "StepComponent list \<Rightarrow> transforms \<Rightarrow> transforms" where
  "motherboardBlock selectedComponents ts =
     (case (findStep ''case'' selectedComponents, findStep ''motherboard'' selectedComponents) of
        (Some caseComponent, Some moboComponent) \<Rightarrow>
          ts(''motherboard'' \<mapsto> motherboardTransform caseComponent moboComponent)
      | _ \<Rightarrow> ts)"

definition cpuBlock :: "StepComponent list \<Rightarrow> transforms \<Rightarrow> transforms" where
  "cpuBlock selectedComponents ts =
     (case (findStep ''motherboard'' selectedComponents, findStep ''cpu'' selectedComponents) of
        (Some moboComponent, Some cpuComponent) \<Rightarrow>
          ts(''cpu'' \<mapsto> cpuTransform ts moboComponent cpuComponent)
      | _ \<Rightarrow> ts)"

definition coolerBlock :: "StepComponent list \<Rightarrow> transforms \<Rightarrow> transforms" where
  "coolerBlock selectedComponents ts =
     (case (findStep ''cpu'' selectedComponents, findStep ''cpu_cooler'' selectedComponents) of
        (Some cpuComponent, Some coolerComponent) \<Rightarrow>
          ts(''cpu_cooler'' \<mapsto> coolerTransform ts cpuComponent coolerComponent)
      | _ \<Rightarrow> ts)"

definition gpuBlock :: "StepComponent list \<Rightarrow> transforms \<Rightarrow> transforms" where
  "gpuBlock selectedComponents ts =
     (case (findStep ''motherboard'' selectedComponents, findStep ''gpu'' selectedComponents) of
        (Some moboComponent, Some gpuComponent) \<Rightarrow>
          ts(''gpu'' \<mapsto> gpuTransform ts moboComponent gpuComponent)
      | _ \<Rightarrow> ts)"

definition psuBlock :: "StepComponent list \<Rightarrow> transforms \<Rightarrow> transforms" where
  "psuBlock selectedComponents ts =
     (case (findStep ''case'' selectedComponents, findStep ''psu'' selectedComponents) of
        (Some caseComponent, Some psuComponent) \<Rightarrow>
          ts(''psu'' \<mapsto> psuTransform caseComponent psuComponent)
      | _ \<Rightarrow> ts)"

definition storageBlock :: "StepComponent list \<Rightarrow> transforms \<Rightarrow> transforms" where
  "storageBlock selectedComponents ts =
     (case findStep ''storage'' selectedComponents of
        Some storageComponent \<Rightarrow>
          ts(''storage'' \<mapsto>
               storageTransform ts (findStep ''case'' selectedComponents)
                 (findStep ''motherboard'' selectedComponents) storageComponent)
      | None \<Rightarrow> ts)"

definition componentTransforms :: "StepComponent list \<Rightarrow> transforms" where
  "componentTransforms selectedComponents =
     storageBlock selectedComponents
       (psuBlock selectedComponents
         (gpuBlock selectedComponents
           (coolerBlock selectedComponents
             (cpuBlock selectedComponents
               (motherboardBlock selectedComponents
                 (Map.empty(''case'' \<mapsto> identityTransform)))))))"

subsection \<open>\<^verbatim>\<open>getRamTransforms\<close>\<close>

text \<open>The callback closes over the memo \<^verbatim>\<open>componentTransforms\<close>: the argument
  \<open>ts\<close>.\<close>

text \<open>\<^verbatim>\<open>a.label.localeCompare(b.label)\<close> is taken as the lexicographic order of the
  character codes, and \<^verbatim>\<open>Array.prototype.sort\<close> is stable: \<open>sort_key\<close>.\<close>

definition ramSlots :: "ApiAnchor list \<Rightarrow> Anchor list" where
  "ramSlots aps = sort_key label (filter (\<lambda>a. anchor_type a = ''ram_slot'') (convertApiAnchors aps))"

definition slotTransform :: "ComponentTransform \<Rightarrow> Anchor \<Rightarrow> ComponentTransform" where
  "slotTransform moboTransform slot =
     (let slotOffset = applyEuler (scaled (position slot)) (t_rotation moboTransform)
      in \<lparr>t_position = vadd (t_position moboTransform) slotOffset,
          t_rotation = t_rotation moboTransform\<rparr>)"

definition fallbackTransform :: "ComponentTransform \<Rightarrow> nat \<Rightarrow> ComponentTransform" where
  "fallbackTransform moboTransform n =
     (let fallbackOffset = applyEuler (1.5 + real n * 0.3, 0.1, 0) (t_rotation moboTransform)
      in \<lparr>t_position = vadd (t_position moboTransform) fallbackOffset,
          t_rotation = t_rotation moboTransform\<rparr>)"

text \<open>The \<^verbatim>\<open>while (ramTransforms.length < quantity)\<close> loop; \<open>qty\<close> is the argument \<^verbatim>\<open>quantity\<close>.\<close>

function fallbackLoop ::
  "ComponentTransform \<Rightarrow> nat \<Rightarrow> ComponentTransform list \<Rightarrow> ComponentTransform list" where
  "fallbackLoop moboTransform qty ramTransforms =
     (if length ramTransforms < qty
      then fallbackLoop moboTransform qty
             (ramTransforms @ [fallbackTransform moboTransform (length ramTransforms)])
      else ramTransforms)"
  by pat_completeness auto
termination
  by (relation "measure (\<lambda>(m, q, ts). q - length ts)") auto

declare fallbackLoop.simps [simp del]

definition getRamTransforms ::
  "transforms \<Rightarrow> 'a SelectedComponent_scheme option \<Rightarrow> nat \<Rightarrow> ComponentTransform list" where
  "getRamTransforms ts moboComponent qty =
     (let moboTransform = transformOr ts ''motherboard'';
          ramTransforms =
            (case moboComponent of
               None \<Rightarrow> []
             | Some mobo \<Rightarrow>
                 (case anchor_points mobo of
                    None \<Rightarrow> []
                  | Some aps \<Rightarrow>
                      (let slots = ramSlots aps
                       in map (slotTransform moboTransform)
                            (take (min qty (length slots)) slots))))
      in fallbackLoop moboTransform qty ramTransforms)"

section \<open>Compatibility, UI stage: \<^verbatim>\<open>checkCompatibility\<close> of the component selector\<close>

text \<open>\<^verbatim>\<open>Product\<close> as the selector declares it, and \<^verbatim>\<open>BuildState\<close>, a dictionary from
  step id to the selected component (\<^verbatim>\<open>null\<close> or a missing key is \<open>None\<close>).\<close>

record Product =
  product_id :: string
  product_name :: string
  product_category :: string
  product_price :: real
  sku :: string
  product_model_url :: "string option"
  product_anchor_points :: "ApiAnchor list option"
  product_technical_specs :: "TechnicalSpecs option"

type_synonym BuildState = "string \<Rightarrow> SelectedComponent option"

record Verdict =
  compatible :: bool
  reason :: "string option"

text \<open>\<^verbatim>\<open>specs?.attribute\<close>.\<close>

definition attr :: "(TechnicalSpecs \<Rightarrow> 'a option) \<Rightarrow> TechnicalSpecs option \<Rightarrow> 'a option" where
  "attr f specs = (case specs of None \<Rightarrow> None | Some s \<Rightarrow> f s)"

text \<open>\<^verbatim>\<open>${n}\<close> for a number: a whole number below \<open>2\<^sup>5\<^sup>3\<close> in magnitude is held exactly
  and printed digit for digit; what JavaScript prints for any other number (a fraction,
  or a larger number, printed with the shortest digits that read back as the same double)
  is the parameter \<open>other\<close>.\<close>

definition numberToString :: "(real \<Rightarrow> string) \<Rightarrow> real \<Rightarrow> string" where
  "numberToString other r =
     (if r \<in> \<int> \<and> \<bar>r\<bar> < 2 ^ 53
      then (if r < 0 then ''-'' @ show_nat (nat (- \<lfloor>r\<rfloor>)) else show_nat (nat \<lfloor>r\<rfloor>))
      else other r)"

text \<open>Each block of \<^verbatim>\<open>checkCompatibility\<close> is a function that gives the verdict the block
  returns, or \<open>None\<close> when control falls through to the next block. \<open>cat\<close> is
  \<^verbatim>\<open>currentStep.category\<close>. In a condition \<^verbatim>\<open>a && b && ...\<close> an absent attribute, an
  empty string and the number 0 are falsy; an array is truthy.\<close>

definition formFactorCheck :: "string \<Rightarrow> BuildState \<Rightarrow> Product \<Rightarrow> Verdict option" where
  "formFactorCheck cat buildState product =
     (case buildState ''case'' of
        Some c \<Rightarrow>
          if cat = ''MOTHERBOARD'' then
            (let caseSpecs = technical_specs c;
                 moboFormFactor = attr form_factor (product_technical_specs product)
             in case (attr supported_motherboards caseSpecs, moboFormFactor) of
                  (Some supported, Some ff) \<Rightarrow>
                    if ff \<noteq> [] \<and> ff \<notin> set supported
                    then Some \<lparr>compatible = False,
                               reason = Some (''Case doesn'' @ [CHR 0x27] @ ''t support '' @ ff)\<rparr>
                    else None
                | _ \<Rightarrow> None)
          else None
      | None \<Rightarrow> None)"

definition socketCheck :: "string \<Rightarrow> BuildState \<Rightarrow> Product \<Rightarrow> Verdict option" where
  "socketCheck cat buildState product =
     (case buildState ''motherboard'' of
        Some m \<Rightarrow>
          if cat = ''CPU'' then
            (let moboSocket = attr socket (technical_specs m);
                 cpuSocket = attr socket (product_technical_specs product)
             in case (moboSocket, cpuSocket) of
                  (Some ms, Some cs) \<Rightarrow>
                    if ms \<noteq> [] \<and> cs \<noteq> [] \<and> ms \<noteq> cs
                    then Some \<lparr>compatible = False,
                               reason = Some (''Socket mismatch (needs '' @ ms @ '')'')\<rparr>
                    else None
                | _ \<Rightarrow> None)
          else None
      | None \<Rightarrow> None)"

definition ramTypeCheck :: "string \<Rightarrow> BuildState \<Rightarrow> Product \<Rightarrow> Verdict option" where
  "ramTypeCheck cat buildState product =
     (case buildState ''motherboard'' of
        Some m \<Rightarrow>
          if cat = ''RAM'' then
            (let moboRamType = attr ram_type (technical_specs m);
                 ramType = attr spec_type (product_technical_specs product)
             in case (moboRamType, ramType) of
                  (Some mt, Some rt) \<Rightarrow>
                    if mt \<noteq> [] \<and> rt \<noteq> [] \<and> mt \<noteq> rt
                    then Some \<lparr>compatible = False,
                               reason = Some (''RAM type mismatch (needs '' @ mt @ '')'')\<rparr>
                    else None
                | _ \<Rightarrow> None)
          else None
      | None \<Rightarrow> None)"

definition gpuLengthCheck ::
  "(real \<Rightarrow> string) \<Rightarrow> string \<Rightarrow> BuildState \<Rightarrow> Product \<Rightarrow> Verdict option" where
  "gpuLengthCheck other cat buildState product =
     (case buildState ''case'' of
        Some c \<Rightarrow>
          if cat = ''GPU'' then
            (let maxGpuLength = attr max_gpu_length_mm (technical_specs c);
                 gpuLength = attr length_mm (product_technical_specs product)
             in case (maxGpuLength, gpuLength) of
                  (Some mx, Some len) \<Rightarrow>
                    if mx \<noteq> 0 \<and> len \<noteq> 0 \<and> len > mx
                    then Some \<lparr>compatible = False,
                               reason = Some (''GPU too long (max ''
                                                @ numberToString other mx @ ''mm)'')\<rparr>
                    else None
                | _ \<Rightarrow> None)
          else None
      | None \<Rightarrow> None)"

definition coolerHeightCheck ::
  "(real \<Rightarrow> string) \<Rightarrow> string \<Rightarrow> BuildState \<Rightarrow> Product \<Rightarrow> Verdict option" where
  "coolerHeightCheck other cat buildState product =
     (case buildState ''case'' of
        Some c \<Rightarrow>
          if cat = ''CPU_COOLER'' then
            (let maxCoolerHeight = attr max_cpu_cooler_height_mm (technical_specs c);
                 coolerHeight = attr height_mm (product_technical_specs product)
             in case (maxCoolerHeight, coolerHeight) of
                  (Some mx, Some h) \<Rightarrow>
                    if mx \<noteq> 0 \<and> h \<noteq> 0 \<and> h > mx
                    then Some \<lparr>compatible = False,
                               reason = Some (''Cooler too tall (max ''
                                                @ numberToString other mx @ ''mm)'')\<rparr>
                    else None
                | _ \<Rightarrow> None)
          else None
      | None \<Rightarrow> None)"

definition checkCompatibility ::
  "(real \<Rightarrow> string) \<Rightarrow> string \<Rightarrow> BuildState \<Rightarrow> Product \<Rightarrow> Verdict" where
  "checkCompatibility other cat buildState product =
     (case formFactorCheck cat buildState product of
        Some v \<Rightarrow> v
      | None \<Rightarrow>
     (case socketCheck cat buildState product of
        Some v \<Rightarrow> v
      | None \<Rightarrow>
     (case ramTypeCheck cat buildState product of
        Some v \<Rightarrow> v
      | None \<Rightarrow>
     (case gpuLengthCheck other cat buildState product of
        Some v \<Rightarrow> v
      | None \<Rightarrow>
     (case coolerHeightCheck other cat buildState product of
        Some v \<Rightarrow> v
      | None \<Rightarrow> \<lparr>compatible = True, reason = None\<rparr>)))))"

text \<open>\<^verbatim>\<open>s.includes(t)\<close> on strings: \<open>t\<close> occurs in \<open>s\<close>.\<close>

fun str_includes :: "string \<Rightarrow> string \<Rightarrow> bool" where
  "str_includes [] t = (t = [])"
| "str_includes (c # cs) t = (prefix t (c # cs) \<or> str_includes cs t)"

section \<open>Compatibility, backend stage: \<^verbatim>\<open>FilterBySocketCompatibility\<close> (Go)\<close>

text \<open>A decoded JSON value (\<^verbatim>\<open>interface{}\<close>), the fields of \<^verbatim>\<open>models.AnchorPoint\<close> and the
  fields of \<^verbatim>\<open>models.Product\<close> that the handlers read. \<^verbatim>\<open>TechnicalSpecs\<close> is a
  \<^verbatim>\<open>map[string]interface{}\<close>; a nil map has no key.\<close>

datatype json = JNull | JBool bool | JNumber real | JString string
  | JArray "json list" | JObject "(string \<times> json) list"

record AnchorPoint =
  Name :: string
  Label :: string
  Position :: vec3
  Rotation :: vec3
  Direction :: string
  ConnectionAxisName :: string
  CompatibleTypes :: "string list"

record ProductModel =
  ID :: nat
  ProductName :: string
  SKU :: string
  Category :: string
  TechnicalSpecsMap :: "string \<Rightarrow> json option"
  AnchorPoints :: "AnchorPoint list"

text \<open>The nested iteration over the parent's anchors and their compatible types, left by
  \<^verbatim>\<open>goto nextCandidate\<close> at the first hit.\<close>

definition socketMatches :: "ProductModel \<Rightarrow> ProductModel \<Rightarrow> string \<Rightarrow> bool" where
  "socketMatches parent candidate socketStr =
     list_ex (\<lambda>anchor. list_ex (\<lambda>compatType. compatType = socketStr \<or> compatType = Category candidate)
                         (CompatibleTypes anchor))
       (AnchorPoints parent)"

fun filterLoop :: "ProductModel \<Rightarrow> ProductModel list \<Rightarrow> ProductModel list \<Rightarrow> ProductModel list" where
  "filterLoop parent result [] = result"
| "filterLoop parent result (candidate # rest) =
     (case TechnicalSpecsMap candidate ''socket'' of
        None \<Rightarrow> filterLoop parent (result @ [candidate]) rest
      | Some candidateSocket \<Rightarrow>
          (case candidateSocket of
             JString socketStr \<Rightarrow>
               if socketMatches parent candidate socketStr
               then filterLoop parent (result @ [candidate]) rest
               else filterLoop parent result rest
           | _ \<Rightarrow> filterLoop parent (result @ [candidate]) rest))"

definition FilterBySocketCompatibility :: "ProductModel \<Rightarrow> ProductModel list \<Rightarrow> ProductModel list" where
  "FilterBySocketCompatibility parent candidates = filterLoop parent [] candidates"

section \<open>Fixtures\<close>

text \<open>A store with two anchors, and an update of the label.\<close>

definition fixtureRamSlot :: Anchor where
  "fixtureRamSlot =
     \<lparr>anchor_id = ''a1'', anchor_type = ''ram_slot'', label = ''RAM Slot 1'',
      position = (1, 0, 0), rotation = (0, 0, 0), direction = ''output'',
      connectionAxis = ''Y_NEG'', compatibleWith = [''ram_edge'']\<rparr>"

definition fixtureSocket :: Anchor where
  "fixtureSocket =
     \<lparr>anchor_id = ''b2'', anchor_type = ''cpu_socket'', label = ''CPU Socket 1'',
      position = (0, 0, 0), rotation = (0, 0, 0), direction = ''output'',
      connectionAxis = ''Y_NEG'', compatibleWith = [''cpu_bottom'']\<rparr>"

definition fixtureStore :: AnchorState where
  "fixtureStore = \<lparr>anchors = [fixtureRamSlot, fixtureSocket], selectedAnchorId = None\<rparr>"

text \<open>The same store with the first anchor selected, a store whose selection names an id
  that no anchor has, and a persisted anchor whose name is not a type of the catalog,
  loaded into the store the way the editor loads a saved part.\<close>

definition fixtureSelectedStore :: AnchorState where
  "fixtureSelectedStore =
     \<lparr>anchors = [fixtureRamSlot, fixtureSocket], selectedAnchorId = Some ''a1''\<rparr>"

definition fixtureDanglingStore :: AnchorState where
  "fixtureDanglingStore =
     \<lparr>anchors = [fixtureRamSlot, fixtureSocket], selectedAnchorId = Some ''ghost''\<rparr>"



definition fixtureUpdates :: AnchorUpdates where
  "fixtureUpdates =
     \<lparr>u_position = None, u_rotation = None, u_direction = None, u_label = Some ''Left slot'',
      u_connectionAxis = None, u_compatibleWith = None\<rparr>"

text \<open>Parts for the placement fixtures: an anchor with a name, a label, a local position and
  a rotation, and a selected component with a step id and an anchor list.\<close>

definition fixtureAnchor :: "string \<Rightarrow> string \<Rightarrow> vec3 \<Rightarrow> vec3 \<Rightarrow> ApiAnchor" where
  "fixtureAnchor n l p r =
     \<lparr>api_name = n, api_label = l, api_position = p, api_rotation = r,
      api_direction = ''output'', api_connection_axis = ''Y_NEG'', api_compatible_types = []\<rparr>"

definition fixtureComponent :: "string \<Rightarrow> ApiAnchor list \<Rightarrow> StepComponent" where
  "fixtureComponent step aps =
     \<lparr>component_id = step, component_name = step, category = step, price = 0,
      model_url = None, anchor_points = Some aps, technical_specs = None, quantity = None,
      stepId = step\<rparr>"

text \<open>The fixture of P1: a case, a motherboard and a CPU.\<close>

definition fixtureCase :: StepComponent where
  "fixtureCase =
     fixtureComponent ''case'' [fixtureAnchor ''mobo_mount_area'' ''Mount'' (0, 5, 0) (0, 0, 0)]"

definition fixtureMotherboard :: StepComponent where
  "fixtureMotherboard =
     fixtureComponent ''motherboard''
       [fixtureAnchor ''mobo_backplate'' ''Backplate'' (0, 0, 0) (0, 0, 0),
        fixtureAnchor ''cpu_socket'' ''Socket'' (2, 0, 0) (0, 0, 0)]"

definition fixtureCpu :: StepComponent where
  "fixtureCpu = fixtureComponent ''cpu'' [fixtureAnchor ''cpu_bottom'' ''Bottom'' (0, 0, 0) (0, 0, 0)]"

definition fixtureP1 :: "StepComponent list" where
  "fixtureP1 = [fixtureCase, fixtureMotherboard, fixtureCpu]"

text \<open>The same build with a socket anchor that is turned by one radian about the second
  axis.\<close>

definition fixtureTurnedSocketBoard :: StepComponent where
  "fixtureTurnedSocketBoard =
     fixtureComponent ''motherboard''
       [fixtureAnchor ''mobo_backplate'' ''Backplate'' (0, 0, 0) (0, 0, 0),
        fixtureAnchor ''cpu_socket'' ''Socket'' (2, 0, 0) (0, 1, 0)]"

definition fixtureTurnedSocket :: "StepComponent list" where
  "fixtureTurnedSocket = [fixtureCase, fixtureTurnedSocketBoard, fixtureCpu]"

text \<open>A case without a PSU bay, and a PSU.\<close>

definition fixtureNoBay :: "StepComponent list" where
  "fixtureNoBay =
     [fixtureCase, fixtureComponent ''psu'' [fixtureAnchor ''psu_mount'' ''Mount'' (1, 2, 3) (0, 0, 0)]]"

text \<open>Two motherboards with four RAM slots: one that lists them out of label order, one
  whose fourth slot sits at (30, 1, 0).\<close>

definition fixtureRamBoard :: StepComponent where
  "fixtureRamBoard =
     fixtureComponent ''motherboard''
       [fixtureAnchor ''ram_slot'' ''RAM Slot 3'' (2, 0, 0) (0, 0, 0),
        fixtureAnchor ''ram_slot'' ''RAM Slot 1'' (0, 0, 0) (0, 0, 0),
        fixtureAnchor ''cpu_socket'' ''Socket'' (9, 0, 0) (0, 0, 0),
        fixtureAnchor ''ram_slot'' ''RAM Slot 4'' (4, 0, 0) (0, 0, 0),
        fixtureAnchor ''ram_slot'' ''RAM Slot 2'' (1, 0, 0) (0, 0, 0)]"

definition fixtureFarSlotBoard :: StepComponent where
  "fixtureFarSlotBoard =
     fixtureComponent ''motherboard''
       [fixtureAnchor ''ram_slot'' ''RAM Slot 1'' (0, 0, 0) (0, 0, 0),
        fixtureAnchor ''ram_slot'' ''RAM Slot 2'' (1, 0, 0) (0, 0, 0),
        fixtureAnchor ''ram_slot'' ''RAM Slot 3'' (2, 0, 0) (0, 0, 0),
        fixtureAnchor ''ram_slot'' ''RAM Slot 4'' (30, 1, 0) (0, 0, 0)]"

text \<open>Parts for the compatibility fixtures: specifications with no attribute, a selected
  component and a candidate product with given specifications, and a backend product.\<close>

definition noSpecs :: TechnicalSpecs where
  "noSpecs =
     \<lparr>socket = None, form_factor = None, supported_motherboards = None, ram_type = None,
      spec_type = None, length_mm = None, max_gpu_length_mm = None, height_mm = None,
      max_cpu_cooler_height_mm = None\<rparr>"

definition fixtureSelected :: "string \<Rightarrow> TechnicalSpecs option \<Rightarrow> SelectedComponent" where
  "fixtureSelected cat specs =
     \<lparr>component_id = ''1'', component_name = cat, category = cat, price = 0,
      model_url = None, anchor_points = None, technical_specs = specs, quantity = None\<rparr>"

definition fixtureProduct :: "string \<Rightarrow> TechnicalSpecs option \<Rightarrow> Product" where
  "fixtureProduct cat specs =
     \<lparr>product_id = ''2'', product_name = cat, product_category = cat, product_price = 0,
      sku = ''SKU'', product_model_url = None, product_anchor_points = None,
      product_technical_specs = specs\<rparr>"

definition fixtureCaseMax :: "real \<Rightarrow> BuildState" where
  "fixtureCaseMax mx =
     Map.empty(''case'' \<mapsto> fixtureSelected ''CASE'' (Some (noSpecs\<lparr>max_gpu_length_mm := Some mx\<rparr>)))"

definition fixtureGpu :: "real \<Rightarrow> Product" where
  "fixtureGpu len = fixtureProduct ''GPU'' (Some (noSpecs\<lparr>length_mm := Some len\<rparr>))"

definition fixtureBoardAM4 :: BuildState where
  "fixtureBoardAM4 =
     Map.empty(''motherboard'' \<mapsto> fixtureSelected ''MOTHERBOARD'' (Some (noSpecs\<lparr>socket := Some ''AM4''\<rparr>)))"

definition fixtureParent :: ProductModel where
  "fixtureParent =
     \<lparr>ID = 1, ProductName = ''Board'', SKU = ''B-1'', Category = ''MOTHERBOARD'',
      TechnicalSpecsMap = Map.empty(''socket'' \<mapsto> JString ''AM4''),
      AnchorPoints =
        [\<lparr>Name = ''cpu_socket'', Label = ''CPU Socket 1'', Position = (0, 0, 0),
          Rotation = (0, 0, 0), Direction = ''output'', ConnectionAxisName = ''Y_NEG'',
          CompatibleTypes = [''cpu_bottom'']\<rparr>]\<rparr>"

definition fixtureCandidate :: ProductModel where
  "fixtureCandidate =
     \<lparr>ID = 2, ProductName = ''Processor'', SKU = ''C-1'', Category = ''CPU'',
      TechnicalSpecsMap = Map.empty, AnchorPoints = []\<rparr>"

section \<open>Properties of the anchor store\<close>

lemma show_nat_digit: "n < 10 \<Longrightarrow> show_nat n = [digit_char n]"
  by (simp add: show_nat.simps)

lemma find_None_ids: "i \<notin> anchor_id ` set as \<Longrightarrow> find (\<lambda>a. anchor_id a = i) as = None"
  by (induction as) auto

lemma map_unmatched:
  "i \<notin> anchor_id ` set as \<Longrightarrow>
   map (\<lambda>anchor. if anchor_id anchor = i then f anchor else anchor) as = as"
  by (induction as) auto

lemma filter_unmatched: "i \<notin> anchor_id ` set as \<Longrightarrow> filter (\<lambda>a. anchor_id a \<noteq> i) as = as"
  by (induction as) auto




text \<open>
  Claim C9, as stated, fails: \<^verbatim>\<open>selectAnchor\<close> accepts any id, so the selection can name
  an id that no anchor of the list has, and \<^verbatim>\<open>removeAnchor\<close> of that id clears the
  selection although the id is not in the list.
\<close>

theorem store_missing_id_counterexample:
  "''ghost'' \<notin> anchor_id `
       set (anchors (selectAnchor \<lparr>anchors = [], selectedAnchorId = None\<rparr> (Some ''ghost'')))
   \<and> removeAnchor (selectAnchor \<lparr>anchors = [], selectedAnchorId = None\<rparr> (Some ''ghost'')) ''ghost''
      \<noteq> selectAnchor \<lparr>anchors = [], selectedAnchorId = None\<rparr> (Some ''ghost'')"
  by (simp add: removeAnchor_def selectAnchor_def)

text \<open>
  Claim C9, amended. For every store state and every id that no anchor of the list has:
  \<^verbatim>\<open>updateAnchor\<close> and \<^verbatim>\<open>duplicateAnchor\<close> return the state unchanged, neither
  throwing; \<^verbatim>\<open>removeAnchor\<close> does not throw and leaves the anchor list unchanged; it
  leaves the whole state unchanged when the selection is not that id, and clears the
  selection when it is.
\<close>

theorem store_missing_id_noop:
  assumes "i \<notin> anchor_id ` set (anchors s)"
  shows "updateAnchor s i updates = s
       \<and> duplicateAnchor jsAdd s i newId = Inr s
       \<and> anchors (removeAnchor s i) = anchors s
       \<and> (selectedAnchorId s \<noteq> Some i \<longrightarrow> removeAnchor s i = s)
       \<and> (selectedAnchorId s = Some i \<longrightarrow> removeAnchor s i = s\<lparr>selectedAnchorId := None\<rparr>)"
  using assms
  by (simp add: updateAnchor_def duplicateAnchor_def removeAnchor_def find_None_ids
      map_unmatched filter_unmatched)

theorem store_missing_id_noop_witness:
  "updateAnchor fixtureSelectedStore ''zz'' fixtureUpdates = fixtureSelectedStore
   \<and> duplicateAnchor (+) fixtureSelectedStore ''zz'' ''n1'' = Inr fixtureSelectedStore
   \<and> removeAnchor fixtureSelectedStore ''zz'' = fixtureSelectedStore
   \<and> anchors fixtureSelectedStore = [fixtureRamSlot, fixtureSocket]
   \<and> selectedAnchorId fixtureSelectedStore = Some ''a1''
   \<and> updateAnchor fixtureDanglingStore ''ghost'' fixtureUpdates = fixtureDanglingStore
   \<and> duplicateAnchor (+) fixtureDanglingStore ''ghost'' ''n1'' = Inr fixtureDanglingStore
   \<and> removeAnchor fixtureDanglingStore ''ghost''
       = \<lparr>anchors = [fixtureRamSlot, fixtureSocket], selectedAnchorId = None\<rparr>"
proof -
  have absent: "''zz'' \<notin> anchor_id ` set (anchors fixtureSelectedStore)"
    "''ghost'' \<notin> anchor_id ` set (anchors fixtureDanglingStore)"
    by (simp_all add: fixtureSelectedStore_def fixtureDanglingStore_def fixtureRamSlot_def
        fixtureSocket_def)
  have sel: "selectedAnchorId fixtureSelectedStore \<noteq> Some ''zz''"
    "selectedAnchorId fixtureDanglingStore = Some ''ghost''"
    by (simp_all add: fixtureSelectedStore_def fixtureDanglingStore_def)
  note kept = store_missing_id_noop [OF absent(1), of fixtureUpdates "(+)" "''n1''"]
  note cleared = store_missing_id_noop [OF absent(2), of fixtureUpdates "(+)" "''n1''"]
  have shape: "anchors fixtureSelectedStore = [fixtureRamSlot, fixtureSocket]"
    "selectedAnchorId fixtureSelectedStore = Some ''a1''"
    "fixtureDanglingStore\<lparr>selectedAnchorId := None\<rparr>
       = \<lparr>anchors = [fixtureRamSlot, fixtureSocket], selectedAnchorId = None\<rparr>"
    by (simp_all add: fixtureSelectedStore_def fixtureDanglingStore_def)
  from kept cleared sel shape show ?thesis by simp
qed


lemma spreadUpdates_id: "anchor_id (spreadUpdates a u) = anchor_id a"
  by (simp add: spreadUpdates_def)

lemma update_ids:
  "map anchor_id (map (\<lambda>anchor. if anchor_id anchor = i then spreadUpdates anchor u else anchor) as)
   = map anchor_id as"
  by (induction as) (auto simp: spreadUpdates_id)

text \<open>
  Claim C10. Every action of the store keeps the anchors that stay in the list in their
  order. \<^verbatim>\<open>addAnchor\<close> (which succeeds for every type of the catalog) and
  \<^verbatim>\<open>duplicateAnchor\<close> put the one new anchor behind the old list; \<^verbatim>\<open>updateAnchor\<close>
  keeps the length and the ids position by position and changes, in place, exactly the
  anchors with the given id; \<^verbatim>\<open>removeAnchor\<close> leaves the anchors with another id, as a
  subsequence of the old list; \<^verbatim>\<open>selectAnchor\<close> does not touch the list;
  \<^verbatim>\<open>setAnchors\<close> installs the caller's list as given and \<^verbatim>\<open>clearAnchors\<close> empties it.
\<close>

theorem store_operations_keep_order:
  "(\<forall>s'. addAnchor s t lbl newId = Inr s' \<longrightarrow>
        (\<exists>a. anchors s' = anchors s @ [a] \<and> anchor_id a = newId \<and> anchor_type a = t))
   \<and> (ANCHOR_TYPE_INFO t \<noteq> None \<longrightarrow> (\<exists>s'. addAnchor s t lbl newId = Inr s'))
   \<and> (\<forall>s'. duplicateAnchor jsAdd s i newId = Inr s' \<longrightarrow>
        s' = s \<or> (\<exists>a. anchors s' = anchors s @ [a] \<and> anchor_id a = newId))
   \<and> length (anchors (updateAnchor s i u)) = length (anchors s)
   \<and> map anchor_id (anchors (updateAnchor s i u)) = map anchor_id (anchors s)
   \<and> (\<forall>k < length (anchors s).
        anchors (updateAnchor s i u) ! k =
          (if anchor_id (anchors s ! k) = i then spreadUpdates (anchors s ! k) u else anchors s ! k))
   \<and> anchors (removeAnchor s i) = filter (\<lambda>a. anchor_id a \<noteq> i) (anchors s)
   \<and> subseq (anchors (removeAnchor s i)) (anchors s)
   \<and> anchors (selectAnchor s j) = anchors s
   \<and> anchors (setAnchors s as) = as
   \<and> anchors (clearAnchors s) = []"
proof -
  have add: "\<forall>s'. addAnchor s t lbl newId = Inr s' \<longrightarrow>
        (\<exists>a. anchors s' = anchors s @ [a] \<and> anchor_id a = newId \<and> anchor_type a = t)"
    by (auto simp: addAnchor_def getDefaultLabel_def Let_def split: option.splits if_splits sum.splits)
  have add_total: "ANCHOR_TYPE_INFO t \<noteq> None \<longrightarrow> (\<exists>s'. addAnchor s t lbl newId = Inr s')"
    by (auto simp: addAnchor_def getDefaultLabel_def Let_def split: option.splits)
  have dup: "\<forall>s'. duplicateAnchor jsAdd s i newId = Inr s' \<longrightarrow>
        s' = s \<or> (\<exists>a. anchors s' = anchors s @ [a] \<and> anchor_id a = newId)"
    by (auto simp: duplicateAnchor_def getDefaultLabel_def Let_def split: option.splits sum.splits)
  have upd: "length (anchors (updateAnchor s i u)) = length (anchors s)"
    "map anchor_id (anchors (updateAnchor s i u)) = map anchor_id (anchors s)"
    "\<forall>k < length (anchors s).
        anchors (updateAnchor s i u) ! k =
          (if anchor_id (anchors s ! k) = i then spreadUpdates (anchors s ! k) u else anchors s ! k)"
    by (simp_all add: updateAnchor_def update_ids del: map_map)
  have rem: "anchors (removeAnchor s i) = filter (\<lambda>a. anchor_id a \<noteq> i) (anchors s)"
    "subseq (anchors (removeAnchor s i)) (anchors s)"
    by (simp_all add: removeAnchor_def)
  have rest: "anchors (selectAnchor s j) = anchors s" "anchors (setAnchors s as) = as"
    "anchors (clearAnchors s) = []"
    by (simp_all add: selectAnchor_def setAnchors_def clearAnchors_def)
  from add add_total dup upd rem rest show ?thesis by blast
qed

theorem store_operations_keep_order_witness:
  "(\<exists>a. addAnchor fixtureStore ''psu_bay'' None ''c3''
           = Inr \<lparr>anchors = [fixtureRamSlot, fixtureSocket, a], selectedAnchorId = None\<rparr>)
   \<and> (\<exists>a. duplicateAnchor (+) fixtureStore ''a1'' ''c3''
           = Inr \<lparr>anchors = [fixtureRamSlot, fixtureSocket, a], selectedAnchorId = Some ''c3''\<rparr>)
   \<and> anchors (updateAnchor fixtureStore ''a1'' fixtureUpdates)
       = [fixtureRamSlot\<lparr>label := ''Left slot''\<rparr>, fixtureSocket]
   \<and> anchors (removeAnchor fixtureStore ''a1'') = [fixtureSocket]"
proof -
  note keep = store_operations_keep_order
    [of fixtureStore "''psu_bay''" None "''c3''" "(+)" "''a1''" fixtureUpdates None "[]"]
  have info: "ANCHOR_TYPE_INFO ''psu_bay'' \<noteq> None"
    by (simp add: ANCHOR_TYPE_INFO_def ANCHOR_TYPE_TABLE_def)
  from keep info obtain s' where s': "addAnchor fixtureStore ''psu_bay'' None ''c3'' = Inr s'"
    by blast
  with keep obtain a where a: "anchors s' = anchors fixtureStore @ [a]" by blast
  have sel: "selectedAnchorId s' = None"
    using s' by (auto simp: addAnchor_def split: option.splits sum.splits)
  have add: "\<exists>a. addAnchor fixtureStore ''psu_bay'' None ''c3''
           = Inr \<lparr>anchors = [fixtureRamSlot, fixtureSocket, a], selectedAnchorId = None\<rparr>"
    using s' a sel by (cases s') (simp add: fixtureStore_def)
  have dup: "\<exists>a. duplicateAnchor (+) fixtureStore ''a1'' ''c3''
           = Inr \<lparr>anchors = [fixtureRamSlot, fixtureSocket, a], selectedAnchorId = Some ''c3''\<rparr>"
    by (simp add: duplicateAnchor_def fixtureStore_def fixtureRamSlot_def fixtureSocket_def
        getDefaultLabel_def ANCHOR_TYPE_INFO_def ANCHOR_TYPE_TABLE_def)
  have upd: "anchors (updateAnchor fixtureStore ''a1'' fixtureUpdates)
       = [fixtureRamSlot\<lparr>label := ''Left slot''\<rparr>, fixtureSocket]"
    using keep
    by (simp add: updateAnchor_def fixtureStore_def fixtureRamSlot_def fixtureSocket_def
        fixtureUpdates_def spreadUpdates_def orElse_def)
  have rem: "anchors (removeAnchor fixtureStore ''a1'') = [fixtureSocket]"
    using keep by (simp add: fixtureStore_def fixtureRamSlot_def fixtureSocket_def)
  from add dup upd rem show ?thesis by blast
qed

section \<open>Properties of the persisted representation\<close>

lemma parse_serialize_enumerate:
  assumes "\<forall>a \<in> set as. label a \<noteq> [] \<and> is_AnchorDirection (direction a)
              \<and> is_ConnectionAxis (connectionAxis a)"
  shows "map (\<lambda>(index, ap). parseAnchor now index ap) (enumerate n (map serializeAnchor as)) =
         map (\<lambda>(k, a). a\<lparr>anchor_id := ''anchor-'' @ show_nat k @ ''-'' @ show_nat (now k)\<rparr>)
           (enumerate n as)"
  using assms
proof (induction as arbitrary: n)
  case Nil
  then show ?case by simp
next
  case (Cons a as)
  have nonempty: "direction a \<noteq> []" "connectionAxis a \<noteq> []" "label a \<noteq> []"
    using Cons.prems by (auto simp: is_AnchorDirection_def is_ConnectionAxis_def)
  have "parseAnchor now n (serializeAnchor a) =
        a\<lparr>anchor_id := ''anchor-'' @ show_nat n @ ''-'' @ show_nat (now n)\<rparr>"
    using nonempty
    by (cases "position a"; cases "rotation a")
       (simp add: parseAnchor_def serializeAnchor_def strOr_def orElse_def)
  with Cons show ?case by simp
qed

text \<open>
  Claim C8, amended. For every list of editor anchors whose labels are not empty (the
  direction and the connection axis being members of their enumerations), serialising and
  parsing back gives the same anchors in the same order with every field reproduced
  exactly, \<^verbatim>\<open>compatible_types\<close> even in the same order, except the id, which is not
  persisted and is generated anew from the index and the clock.
\<close>

theorem anchors_round_trip:
  assumes "\<forall>a \<in> set as. label a \<noteq> [] \<and> is_AnchorDirection (direction a)
              \<and> is_ConnectionAxis (connectionAxis a)"
  shows "parseAnchors now (Some (serializeAnchors as)) =
         map (\<lambda>(k, a). a\<lparr>anchor_id := ''anchor-'' @ show_nat k @ ''-'' @ show_nat (now k)\<rparr>)
           (enumerate 0 as)"
  using parse_serialize_enumerate [OF assms, of now 0]
  by (cases as) (simp_all add: parseAnchors_def serializeAnchors_def)

text \<open>
  Claim C8, as stated, fails: the label field of the editor can be cleared, and the parser
  replaces an empty label by \<^verbatim>\<open>Anchor N\<close>.
\<close>

theorem anchors_round_trip_counterexample:
  "map label (parseAnchors (\<lambda>k. 0) (Some (serializeAnchors
      [\<lparr>anchor_id = ''a1'', anchor_type = ''ram_slot'', label = '''',
        position = (1, 0, 0), rotation = (0, 0, 0), direction = ''output'',
        connectionAxis = ''Y_NEG'', compatibleWith = [''ram_edge'']\<rparr>]))) = [''Anchor 1'']
   \<and> map label
      [\<lparr>anchor_id = ''a1'', anchor_type = ''ram_slot'', label = '''',
        position = (1, 0, 0), rotation = (0, 0, 0), direction = ''output'',
        connectionAxis = ''Y_NEG'', compatibleWith = [''ram_edge'']\<rparr>] = ['''']"
  by (simp add: parseAnchors_def serializeAnchors_def parseAnchor_def serializeAnchor_def
      strOr_def show_nat_digit digit_char_def)

theorem anchors_round_trip_witness:
  "parseAnchors (\<lambda>k. 7) (Some (serializeAnchors
      [\<lparr>anchor_id = ''a1'', anchor_type = ''ram_slot'', label = ''RAM Slot 1'',
        position = (1, 0, 0), rotation = (0, 0, 0), direction = ''output'',
        connectionAxis = ''Y_NEG'', compatibleWith = [''ram_edge'']\<rparr>]))
   = [\<lparr>anchor_id = ''anchor-0-7'', anchor_type = ''ram_slot'', label = ''RAM Slot 1'',
        position = (1, 0, 0), rotation = (0, 0, 0), direction = ''output'',
        connectionAxis = ''Y_NEG'', compatibleWith = [''ram_edge'']\<rparr>]"
  using anchors_round_trip [of
      "[\<lparr>anchor_id = ''a1'', anchor_type = ''ram_slot'', label = ''RAM Slot 1'',
        position = (1, 0, 0), rotation = (0, 0, 0), direction = ''output'',
        connectionAxis = ''Y_NEG'', compatibleWith = [''ram_edge'']\<rparr>]" "\<lambda>k. 7"]
  by (simp add: is_AnchorDirection_def is_ConnectionAxis_def show_nat_digit digit_char_def)



section \<open>Properties of the placement\<close>

lemma applyEuler_x_axis: "applyEuler (a, 0, 0) (r, 0, 0) = (a, 0, 0)"
  by (simp add: applyEuler_def setFromEuler_def applyQuaternion_def Let_def)

lemma applyEuler_zero_vec: "applyEuler (0, 0, 0) e = (0, 0, 0)"
  by (cases e) (simp add: applyEuler_def setFromEuler_def applyQuaternion_def Let_def)

lemma applyEuler_identity: "applyEuler v (0, 0, 0) = v"
  by (cases v) (simp add: applyEuler_def setFromEuler_def applyQuaternion_def Let_def)

lemma block_frames:
  "k \<noteq> ''motherboard'' \<Longrightarrow> motherboardBlock sel ts k = ts k"
  "k \<noteq> ''cpu'' \<Longrightarrow> cpuBlock sel ts k = ts k"
  "k \<noteq> ''cpu_cooler'' \<Longrightarrow> coolerBlock sel ts k = ts k"
  "k \<noteq> ''gpu'' \<Longrightarrow> gpuBlock sel ts k = ts k"
  "k \<noteq> ''psu'' \<Longrightarrow> psuBlock sel ts k = ts k"
  "k \<noteq> ''storage'' \<Longrightarrow> storageBlock sel ts k = ts k"
  by (simp_all add: motherboardBlock_def cpuBlock_def coolerBlock_def gpuBlock_def psuBlock_def
      storageBlock_def split: option.splits)

lemma componentTransforms_motherboard:
  "componentTransforms sel ''motherboard'' =
     (case findStep ''case'' sel of
        Some c \<Rightarrow> (case findStep ''motherboard'' sel of
                     Some m \<Rightarrow> Some (motherboardTransform c m) | None \<Rightarrow> None)
      | None \<Rightarrow> None)"
  by (simp add: componentTransforms_def block_frames)
     (simp add: motherboardBlock_def split: option.splits)

lemma cpuTransform_cong:
  "ts ''motherboard'' = ts' ''motherboard'' \<Longrightarrow> cpuTransform ts m u = cpuTransform ts' m u"
  unfolding cpuTransform_def transformOr_def by (erule subst) (rule refl)

lemma gpuTransform_cong:
  "ts ''motherboard'' = ts' ''motherboard'' \<Longrightarrow> gpuTransform ts m g = gpuTransform ts' m g"
  unfolding gpuTransform_def transformOr_def by (erule subst) (rule refl)

lemma componentTransforms_cpu:
  "componentTransforms sel ''cpu'' =
     (case findStep ''motherboard'' sel of
        Some m \<Rightarrow> (case findStep ''cpu'' sel of
                     Some u \<Rightarrow> Some (cpuTransform (componentTransforms sel) m u) | None \<Rightarrow> None)
      | None \<Rightarrow> None)"
proof -
  let ?ts = "motherboardBlock sel (Map.empty(''case'' \<mapsto> identityTransform))"
  have same: "?ts ''motherboard'' = componentTransforms sel ''motherboard''"
    by (simp add: componentTransforms_def block_frames)
  have "componentTransforms sel ''cpu'' = cpuBlock sel ?ts ''cpu''"
    by (simp add: componentTransforms_def block_frames)
  also have "\<dots> = (case findStep ''motherboard'' sel of
        Some m \<Rightarrow> (case findStep ''cpu'' sel of
                     Some u \<Rightarrow> Some (cpuTransform ?ts m u) | None \<Rightarrow> None)
      | None \<Rightarrow> None)"
    by (simp add: cpuBlock_def motherboardBlock_def split: option.splits)
  finally show ?thesis
    by (simp add: cpuTransform_cong [of ?ts "componentTransforms sel", OF same]
        split: option.splits)
qed

lemma componentTransforms_gpu:
  "componentTransforms sel ''gpu'' =
     (case findStep ''motherboard'' sel of
        Some m \<Rightarrow> (case findStep ''gpu'' sel of
                     Some g \<Rightarrow> Some (gpuTransform (componentTransforms sel) m g) | None \<Rightarrow> None)
      | None \<Rightarrow> None)"
proof -
  let ?ts = "coolerBlock sel (cpuBlock sel
               (motherboardBlock sel (Map.empty(''case'' \<mapsto> identityTransform))))"
  have same: "?ts ''motherboard'' = componentTransforms sel ''motherboard''"
    by (simp add: componentTransforms_def block_frames)
  have none: "?ts ''gpu'' = None"
    by (simp add: block_frames)
  have "componentTransforms sel ''gpu'' = gpuBlock sel ?ts ''gpu''"
    by (simp add: componentTransforms_def block_frames)
  also have "\<dots> = (case findStep ''motherboard'' sel of
        Some m \<Rightarrow> (case findStep ''gpu'' sel of
                     Some g \<Rightarrow> Some (gpuTransform ?ts m g) | None \<Rightarrow> None)
      | None \<Rightarrow> None)"
    using none by (simp add: gpuBlock_def split: option.splits)
  finally show ?thesis
    by (simp add: gpuTransform_cong [of ?ts "componentTransforms sel", OF same]
        split: option.splits)
qed

lemma coolerTransform_cong:
  "ts ''cpu'' = ts' ''cpu'' \<Longrightarrow> coolerTransform ts u k = coolerTransform ts' u k"
  unfolding coolerTransform_def transformOr_def by (erule subst) (rule refl)

lemma storageTransform_cong:
  "ts ''motherboard'' = ts' ''motherboard'' \<Longrightarrow>
   storageTransform ts c m st = storageTransform ts' c m st"
  unfolding storageTransform_def transformOr_def by (erule subst) (rule refl)

lemma componentTransforms_cooler:
  "componentTransforms sel ''cpu_cooler'' =
     (case findStep ''cpu'' sel of
        Some u \<Rightarrow> (case findStep ''cpu_cooler'' sel of
                     Some k \<Rightarrow> Some (coolerTransform (componentTransforms sel) u k) | None \<Rightarrow> None)
      | None \<Rightarrow> None)"
proof -
  let ?ts = "cpuBlock sel (motherboardBlock sel (Map.empty(''case'' \<mapsto> identityTransform)))"
  have same: "?ts ''cpu'' = componentTransforms sel ''cpu''"
    by (simp add: componentTransforms_def block_frames)
  have none: "?ts ''cpu_cooler'' = None"
    by (simp add: block_frames)
  have "componentTransforms sel ''cpu_cooler'' = coolerBlock sel ?ts ''cpu_cooler''"
    by (simp add: componentTransforms_def block_frames)
  also have "\<dots> = (case findStep ''cpu'' sel of
        Some u \<Rightarrow> (case findStep ''cpu_cooler'' sel of
                     Some k \<Rightarrow> Some (coolerTransform ?ts u k) | None \<Rightarrow> None)
      | None \<Rightarrow> None)"
    using none by (simp add: coolerBlock_def split: option.splits)
  finally show ?thesis
    by (simp add: coolerTransform_cong [of ?ts "componentTransforms sel", OF same]
        split: option.splits)
qed

lemma componentTransforms_storage:
  "componentTransforms sel ''storage'' =
     (case findStep ''storage'' sel of
        Some st \<Rightarrow> Some (storageTransform (componentTransforms sel) (findStep ''case'' sel)
                           (findStep ''motherboard'' sel) st)
      | None \<Rightarrow> None)"
proof -
  let ?ts = "psuBlock sel (gpuBlock sel (coolerBlock sel (cpuBlock sel
               (motherboardBlock sel (Map.empty(''case'' \<mapsto> identityTransform))))))"
  have same: "?ts ''motherboard'' = componentTransforms sel ''motherboard''"
    by (simp add: componentTransforms_def block_frames)
  have none: "?ts ''storage'' = None"
    by (simp add: block_frames)
  have "componentTransforms sel ''storage'' =
     (case findStep ''storage'' sel of
        Some st \<Rightarrow> Some (storageTransform ?ts (findStep ''case'' sel)
                           (findStep ''motherboard'' sel) st)
      | None \<Rightarrow> None)"
    using none by (simp add: componentTransforms_def storageBlock_def split: option.splits)
  then show ?thesis
    by (simp add: storageTransform_cong [of ?ts "componentTransforms sel", OF same]
        split: option.splits)
qed

lemma componentTransforms_psu:
  "componentTransforms sel ''psu'' =
     (case findStep ''case'' sel of
        Some c \<Rightarrow> (case findStep ''psu'' sel of
                     Some p \<Rightarrow> Some (psuTransform c p) | None \<Rightarrow> None)
      | None \<Rightarrow> None)"
  by (simp add: componentTransforms_def block_frames)
     (simp add: psuBlock_def block_frames split: option.splits)

lemma findType_None: "\<forall>a \<in> set as. anchor_type a \<noteq> t \<Longrightarrow> findType t as = None"
  unfolding findType_def by (induction as) auto

text \<open>
  Claim C4. Let the selection hold a case and a PSU (\<open>c\<close> and \<open>p\<close> being the first
  component of each step, the ones the composer picks), and let no anchor of the case be a
  \<^verbatim>\<open>psu_bay\<close>. Then the composed map has a placement for the PSU, and it is the
  fallback constant: position (0, -2, 0), rotation (0, 0, 0). The composer is a function
  of the selection alone, so nothing composed before enters the result.
\<close>

theorem psu_fallback:
  assumes "findStep ''case'' sel = Some c"
      and "findStep ''psu'' sel = Some p"
      and "\<forall>a \<in> set (orElse (anchor_points c) []). api_name a \<noteq> ''psu_bay''"
  shows "componentTransforms sel ''psu'' = Some \<lparr>t_position = (0, - 2, 0), t_rotation = (0, 0, 0)\<rparr>"
proof -
  have "findType ''psu_bay'' (anchorsOf c) = None"
    using assms(3)
    by (intro findType_None) (auto simp: anchorsOf_def convertApiAnchors_def convertApiAnchor_def)
  then show ?thesis
    using assms(1,2) by (simp add: componentTransforms_psu psuTransform_def Let_def)
qed

theorem psu_fallback_witness:
  "componentTransforms fixtureNoBay ''psu'' =
     Some \<lparr>t_position = (0, - 2, 0), t_rotation = (0, 0, 0)\<rparr>"
  using psu_fallback [of fixtureNoBay fixtureCase
      "fixtureComponent ''psu'' [fixtureAnchor ''psu_mount'' ''Mount'' (1, 2, 3) (0, 0, 0)]"]
  by (simp add: fixtureNoBay_def fixtureCase_def fixtureComponent_def fixtureAnchor_def
      findStep_def orElse_def)

text \<open>
  Claim C1. Let the selection hold a case, a motherboard and a CPU; let the first
  \<^verbatim>\<open>mobo_mount_area\<close> anchor of the case sit at (0, 5, 0) with rotation zero, the first
  \<^verbatim>\<open>mobo_backplate\<close> anchor of the motherboard at (0, 0, 0), its first
  \<^verbatim>\<open>cpu_socket\<close> anchor at (2, 0, 0), and the first \<^verbatim>\<open>cpu_bottom\<close> anchor of the
  CPU at (0, 0, 0). With the scale factor 0.1 the composer places the CPU at
  (0.2, 0.5, 0).
\<close>

theorem cpu_chain_position:
  assumes "findStep ''case'' sel = Some c"
      and "findStep ''motherboard'' sel = Some m"
      and "findStep ''cpu'' sel = Some u"
      and "findType ''mobo_mount_area'' (anchorsOf c) = Some mountArea"
      and "position mountArea = (0, 5, 0)" and "rotation mountArea = (0, 0, 0)"
      and "findType ''mobo_backplate'' (anchorsOf m) = Some backplate"
      and "position backplate = (0, 0, 0)"
      and "findType ''cpu_socket'' (anchorsOf m) = Some sk"
      and "position sk = (2, 0, 0)"
      and "findType ''cpu_bottom'' (anchorsOf u) = Some bottom"
      and "position bottom = (0, 0, 0)"
  shows "map_option t_position (componentTransforms sel ''cpu'') = Some (0.2, 0.5, 0)"
proof -
  have mobo: "componentTransforms sel ''motherboard'' =
      Some \<lparr>t_position = (0, 0.5, 0), t_rotation = (pi / 2, 0, 0)\<rparr>"
    using assms
    by (simp add: componentTransforms_motherboard motherboardTransform_def Let_def scaled_def
        SCALE_FACTOR_def vsub_def)
  show ?thesis
    using assms mobo
    by (simp add: componentTransforms_cpu cpuTransform_def Let_def transformOr_def orElse_def
        scaled_def SCALE_FACTOR_def applyEuler_x_axis applyEuler_zero_vec vadd_def vsub_def)
qed


theorem cpu_chain_position_witness:
  "map_option t_position (componentTransforms fixtureP1 ''cpu'') = Some (0.2, 0.5, 0)"
  using cpu_chain_position [of fixtureP1 fixtureCase fixtureMotherboard fixtureCpu
      "convertApiAnchor (fixtureAnchor ''mobo_mount_area'' ''Mount'' (0, 5, 0) (0, 0, 0))"
      "convertApiAnchor (fixtureAnchor ''mobo_backplate'' ''Backplate'' (0, 0, 0) (0, 0, 0))"
      "convertApiAnchor (fixtureAnchor ''cpu_socket'' ''Socket'' (2, 0, 0) (0, 0, 0))"
      "convertApiAnchor (fixtureAnchor ''cpu_bottom'' ''Bottom'' (0, 0, 0) (0, 0, 0))"]
  by (simp add: fixtureP1_def fixtureCase_def fixtureMotherboard_def fixtureCpu_def
      fixtureComponent_def fixtureAnchor_def findStep_def findType_def anchorsOf_def
      convertApiAnchors_def convertApiAnchor_def orElse_def)


text \<open>How each block sets the child's rotation when the parent anchor is found: the
  motherboard, cooler, GPU and PSU blocks add the anchor's rotation to the parent's (the
  case's is zero); the CPU block and the M.2 branch of the storage block copy the
  parent's.\<close>

lemma motherboard_rotation_adds_anchor_rotation:
  assumes "findStep ''case'' sel = Some c"
      and "findStep ''motherboard'' sel = Some m"
      and "findType ''mobo_mount_area'' (anchorsOf c) = Some ma"
  shows "map_option t_rotation (componentTransforms sel ''motherboard'') =
           Some (vadd (vadd (0, 0, 0) (rotation ma)) (pi / 2, 0, 0))"
  using assms
  by (cases "rotation ma")
     (simp add: componentTransforms_motherboard motherboardTransform_def Let_def vadd_def)

lemma psu_rotation_adds_anchor_rotation:
  assumes "findStep ''case'' sel = Some c"
      and "findStep ''psu'' sel = Some p"
      and "findType ''psu_bay'' (anchorsOf c) = Some bay"
  shows "map_option t_rotation (componentTransforms sel ''psu'') =
           Some (vadd (0, 0, 0) (rotation bay))"
  using assms
  by (cases "rotation bay") (simp add: componentTransforms_psu psuTransform_def Let_def vadd_def)

lemma gpu_rotation_adds_anchor_rotation:
  assumes "findStep ''motherboard'' sel = Some m"
      and "findStep ''gpu'' sel = Some g"
      and "findType ''pcie_x16'' (anchorsOf m) = Some pc"
  shows "map_option t_rotation (componentTransforms sel ''gpu'') =
           Some (vadd (t_rotation (transformOr (componentTransforms sel) ''motherboard''))
                   (rotation pc))"
  using assms by (simp add: componentTransforms_gpu gpuTransform_def Let_def)

lemma cooler_rotation_adds_anchor_rotation:
  assumes "findStep ''cpu'' sel = Some u"
      and "findStep ''cpu_cooler'' sel = Some k"
      and "findType ''cooler_plate'' (anchorsOf u) = Some pl"
  shows "map_option t_rotation (componentTransforms sel ''cpu_cooler'') =
           Some (vadd (t_rotation (transformOr (componentTransforms sel) ''cpu'')) (rotation pl))"
  using assms by (simp add: componentTransforms_cooler coolerTransform_def Let_def)

lemma storage_rotation_is_parent_rotation:
  assumes "findStep ''motherboard'' sel = Some m"
      and "findStep ''storage'' sel = Some st"
      and "findType ''m2_slot'' (anchorsOf m) = Some sl"
  shows "map_option t_rotation (componentTransforms sel ''storage'') =
           Some (t_rotation (transformOr (componentTransforms sel) ''motherboard''))"
  using assms by (simp add: componentTransforms_storage storageTransform_def Let_def)

lemma cpu_rotation_is_parent_rotation:
  assumes "findStep ''motherboard'' sel = Some m"
      and "findStep ''cpu'' sel = Some u"
      and "findType ''cpu_socket'' (anchorsOf m) = Some sk"
  shows "map_option t_rotation (componentTransforms sel ''cpu'') =
           Some (t_rotation (transformOr (componentTransforms sel) ''motherboard''))"
  using assms by (simp add: componentTransforms_cpu cpuTransform_def Let_def)

text \<open>
  Claim C2 at a socket anchor that is turned: the motherboard stands at rotation
  (\<pi>/2, 0, 0), its \<^verbatim>\<open>cpu_socket\<close> anchor has rotation (0, 1, 0), and the CPU gets the
  motherboard's rotation (\<pi>/2, 0, 0), not the sum (\<pi>/2, 1, 0) of the two: the CPU block
  copies the parent's rotation, where the GPU, cooler and PSU blocks add the anchor's.
\<close>

theorem cpu_rotation_ignores_socket_rotation:
  "map_option t_rotation (componentTransforms fixtureTurnedSocket ''motherboard'') = Some (pi / 2, 0, 0)
   \<and> map_option rotation (findType ''cpu_socket'' (anchorsOf fixtureTurnedSocketBoard)) = Some (0, 1, 0)
   \<and> map_option t_rotation (componentTransforms fixtureTurnedSocket ''cpu'') = Some (pi / 2, 0, 0)
   \<and> vadd (pi / 2, 0, 0) (0, 1, 0) \<noteq> (pi / 2, 0, 0)"
  by (simp add: componentTransforms_motherboard componentTransforms_cpu
      fixtureTurnedSocket_def fixtureCase_def fixtureTurnedSocketBoard_def fixtureCpu_def
      fixtureComponent_def fixtureAnchor_def findStep_def findType_def anchorsOf_def
      convertApiAnchors_def convertApiAnchor_def orElse_def motherboardTransform_def
      cpuTransform_def transformOr_def Let_def vadd_def)

lemma ramSlots_sorted:
  assumes slots: "mset (filter (\<lambda>a. api_name a = ''ram_slot'') aps) = {#s1, s2, s3, s4#}"
      and l1: "api_label s1 = ''RAM Slot 1''" and l2: "api_label s2 = ''RAM Slot 2''"
      and l3: "api_label s3 = ''RAM Slot 3''" and l4: "api_label s4 = ''RAM Slot 4''"
  shows "ramSlots aps = map convertApiAnchor [s1, s2, s3, s4]"
proof -
  let ?xs = "filter (\<lambda>a. anchor_type a = ''ram_slot'') (convertApiAnchors aps)"
  let ?ys = "map convertApiAnchor [s1, s2, s3, s4]"
  have xs: "?xs = map convertApiAnchor (filter (\<lambda>a. api_name a = ''ram_slot'') aps)"
    by (simp add: convertApiAnchors_def filter_map o_def convertApiAnchor_def)
  have ms: "mset ?xs = mset ?ys"
    unfolding xs mset_map slots by (simp add: ac_simps)
  have lab: "label (convertApiAnchor s) = api_label s" for s
    by (simp add: convertApiAnchor_def)
  show ?thesis
    unfolding ramSlots_def
  proof (rule properties_for_sort_key)
    show "mset ?ys = mset ?xs" using ms by simp
    show "sorted (map label ?ys)" by (simp add: lab l1 l2 l3 l4)
    fix k assume k: "k \<in> set ?ys"
    have ys: "filter (\<lambda>x. label k = label x) ?ys = [k]"
      using k by (auto simp: lab l1 l2 l3 l4)
    have "mset (filter (\<lambda>x. label k = label x) ?xs) = mset (filter (\<lambda>x. label k = label x) ?ys)"
      using ms by (metis mset_filter)
    then have "mset (filter (\<lambda>x. label k = label x) ?xs) = {#k#}"
      unfolding ys by (simp only: mset.simps)
    then have "filter (\<lambda>x. label k = label x) ?xs = [k]"
      by (simp only: mset_single_iff)
    with ys show "filter (\<lambda>x. label k = label x) ?ys = filter (\<lambda>x. label k = label x) ?xs"
      by simp
  qed
qed

lemma slot_position:
  "t_position (slotTransform M (convertApiAnchor s)) =
     vadd (t_position M) (applyEuler (scaled (api_position s)) (t_rotation M))"
  by (cases "api_position s") (simp add: slotTransform_def convertApiAnchor_def Let_def)

lemma fallback_position:
  "t_position (fallbackTransform M n) =
     vadd (t_position M) (applyEuler (1.5 + real n * 0.3, 0.1, 0) (t_rotation M))"
  by (simp add: fallbackTransform_def Let_def)

lemma no_motherboard_transform: "componentTransforms [m] ''motherboard'' = None"
  by (simp add: componentTransforms_motherboard findStep_def split: option.splits)

text \<open>
  Claim C3, as stated, fails in its last part: the synthesized placements sit at fixed
  offsets, (2.7, 0.1, 0) and (3, 0.1, 0) for the fifth and sixth module, and a slot
  authored at (30, 1, 0) scales to the second of them.
\<close>

theorem ram_replication_counterexample:
  "map api_label (filter (\<lambda>a. api_name a = ''ram_slot'') (orElse (anchor_points fixtureFarSlotBoard) []))
     = [''RAM Slot 1'', ''RAM Slot 2'', ''RAM Slot 3'', ''RAM Slot 4'']
   \<and> distinct (map api_position (orElse (anchor_points fixtureFarSlotBoard) []))
   \<and> map t_position
        (getRamTransforms (componentTransforms [fixtureFarSlotBoard]) (Some fixtureFarSlotBoard) 6)
     = [(0, 0, 0), (0.1, 0, 0), (0.2, 0, 0), (3, 0.1, 0), (2.7, 0.1, 0), (3, 0.1, 0)]
   \<and> \<not> distinct (map t_position
        (getRamTransforms (componentTransforms [fixtureFarSlotBoard]) (Some fixtureFarSlotBoard) 6))"
proof -
  have pos: "map t_position
        (getRamTransforms (componentTransforms [fixtureFarSlotBoard]) (Some fixtureFarSlotBoard) 6)
     = [(0, 0, 0), (0.1, 0, 0), (0.2, 0, 0), (3, 0.1, 0), (2.7, 0.1, 0), (3, 0.1, 0)]"
    by (simp add: getRamTransforms_def transformOr_def no_motherboard_transform orElse_def
        identityTransform_def fixtureFarSlotBoard_def fixtureComponent_def fixtureAnchor_def
        ramSlots_def convertApiAnchors_def convertApiAnchor_def Let_def slotTransform_def
        fallbackTransform_def fallbackLoop.simps applyEuler_identity scaled_def SCALE_FACTOR_def
        vadd_def)
  have "\<not> distinct (map t_position
        (getRamTransforms (componentTransforms [fixtureFarSlotBoard]) (Some fixtureFarSlotBoard) 6))"
    unfolding pos by simp
  moreover have "map api_label (filter (\<lambda>a. api_name a = ''ram_slot'')
        (orElse (anchor_points fixtureFarSlotBoard) []))
     = [''RAM Slot 1'', ''RAM Slot 2'', ''RAM Slot 3'', ''RAM Slot 4'']"
    "distinct (map api_position (orElse (anchor_points fixtureFarSlotBoard) []))"
    by (simp_all add: fixtureFarSlotBoard_def fixtureComponent_def fixtureAnchor_def orElse_def)
  ultimately show ?thesis using pos by blast
qed

text \<open>
  Claim C3, amended. Let the motherboard's \<^verbatim>\<open>ram_slot\<close> anchors be, in any order and
  among any other anchors, four anchors labelled "RAM Slot 1" to "RAM Slot 4", and let
  \<open>M\<close> be the motherboard's transform. Quantity 3 gives exactly the three placements of
  slots 1, 2 and 3, in label order. Quantity 6 gives exactly six placements: those of
  slots 1 to 4 in label order, then two synthesized ones at the fixed offsets
  (2.7, 0.1, 0) and (3, 0.1, 0), rotated with the motherboard and added to its position,
  as a slot's scaled position is. The positions are not promised to be mutually distinct:
  a slot whose scaled position is one of the two offsets gets the position of that
  synthesized placement.
\<close>

theorem ram_replication:
  fixes ts :: transforms and M :: ComponentTransform
  defines "M \<equiv> transformOr ts ''motherboard''"
  assumes aps: "anchor_points mobo = Some aps"
      and slots: "mset (filter (\<lambda>a. api_name a = ''ram_slot'') aps) = {#s1, s2, s3, s4#}"
      and l1: "api_label s1 = ''RAM Slot 1''" and l2: "api_label s2 = ''RAM Slot 2''"
      and l3: "api_label s3 = ''RAM Slot 3''" and l4: "api_label s4 = ''RAM Slot 4''"
  shows "getRamTransforms ts (Some mobo) 3 =
           map (\<lambda>s. slotTransform M (convertApiAnchor s)) [s1, s2, s3]
       \<and> getRamTransforms ts (Some mobo) 6 =
           map (\<lambda>s. slotTransform M (convertApiAnchor s)) [s1, s2, s3, s4]
             @ [fallbackTransform M 4, fallbackTransform M 5]
       \<and> (\<forall>s. t_position (slotTransform M (convertApiAnchor s)) =
                 vadd (t_position M) (applyEuler (scaled (api_position s)) (t_rotation M)))
       \<and> t_position (fallbackTransform M 4) =
           vadd (t_position M) (applyEuler (2.7, 0.1, 0) (t_rotation M))
       \<and> t_position (fallbackTransform M 5) =
           vadd (t_position M) (applyEuler (3, 0.1, 0) (t_rotation M))
       \<and> (\<forall>s. scaled (api_position s) = (2.7, 0.1, 0) \<longrightarrow>
                 t_position (slotTransform M (convertApiAnchor s)) =
                 t_position (fallbackTransform M 4))
       \<and> (\<forall>s. scaled (api_position s) = (3, 0.1, 0) \<longrightarrow>
                 t_position (slotTransform M (convertApiAnchor s)) =
                 t_position (fallbackTransform M 5))"
proof -
  have sorted: "ramSlots aps = map convertApiAnchor [s1, s2, s3, s4]"
    by (rule ramSlots_sorted [OF slots l1 l2 l3 l4])
  have three: "getRamTransforms ts (Some mobo) 3 =
           map (\<lambda>s. slotTransform M (convertApiAnchor s)) [s1, s2, s3]"
    by (simp add: getRamTransforms_def aps sorted Let_def M_def fallbackLoop.simps)
  have six: "getRamTransforms ts (Some mobo) 6 =
           map (\<lambda>s. slotTransform M (convertApiAnchor s)) [s1, s2, s3, s4]
             @ [fallbackTransform M 4, fallbackTransform M 5]"
    by (simp add: getRamTransforms_def aps sorted Let_def M_def fallbackLoop.simps
        eval_nat_numeral)
  have sl: "\<forall>s. t_position (slotTransform M (convertApiAnchor s)) =
                 vadd (t_position M) (applyEuler (scaled (api_position s)) (t_rotation M))"
    by (simp add: slot_position)
  have f4: "t_position (fallbackTransform M 4) =
           vadd (t_position M) (applyEuler (2.7, 0.1, 0) (t_rotation M))"
    by (simp add: fallback_position)
  have f5: "t_position (fallbackTransform M 5) =
           vadd (t_position M) (applyEuler (3, 0.1, 0) (t_rotation M))"
    by (simp add: fallback_position)
  have c4: "\<forall>s. scaled (api_position s) = (2.7, 0.1, 0) \<longrightarrow>
                 t_position (slotTransform M (convertApiAnchor s)) =
                 t_position (fallbackTransform M 4)"
    by (simp only: sl f4) simp
  have c5: "\<forall>s. scaled (api_position s) = (3, 0.1, 0) \<longrightarrow>
                 t_position (slotTransform M (convertApiAnchor s)) =
                 t_position (fallbackTransform M 5)"
    by (simp only: sl f5) simp
  from three six sl f4 f5 c4 c5 show ?thesis by blast
qed

theorem ram_replication_witness:
  "map t_position
     (getRamTransforms (componentTransforms [fixtureRamBoard]) (Some fixtureRamBoard) 3)
     = [(0, 0, 0), (0.1, 0, 0), (0.2, 0, 0)]
   \<and> map t_position
     (getRamTransforms (componentTransforms [fixtureRamBoard]) (Some fixtureRamBoard) 6)
     = [(0, 0, 0), (0.1, 0, 0), (0.2, 0, 0), (0.4, 0, 0), (2.7, 0.1, 0), (3, 0.1, 0)]"
proof -
  note rr = ram_replication
    [of fixtureRamBoard
        "[fixtureAnchor ''ram_slot'' ''RAM Slot 3'' (2, 0, 0) (0, 0, 0),
          fixtureAnchor ''ram_slot'' ''RAM Slot 1'' (0, 0, 0) (0, 0, 0),
          fixtureAnchor ''cpu_socket'' ''Socket'' (9, 0, 0) (0, 0, 0),
          fixtureAnchor ''ram_slot'' ''RAM Slot 4'' (4, 0, 0) (0, 0, 0),
          fixtureAnchor ''ram_slot'' ''RAM Slot 2'' (1, 0, 0) (0, 0, 0)]"
        "fixtureAnchor ''ram_slot'' ''RAM Slot 1'' (0, 0, 0) (0, 0, 0)"
        "fixtureAnchor ''ram_slot'' ''RAM Slot 2'' (1, 0, 0) (0, 0, 0)"
        "fixtureAnchor ''ram_slot'' ''RAM Slot 3'' (2, 0, 0) (0, 0, 0)"
        "fixtureAnchor ''ram_slot'' ''RAM Slot 4'' (4, 0, 0) (0, 0, 0)"
        "componentTransforms [fixtureRamBoard]"]
  have h1: "anchor_points fixtureRamBoard = Some
        [fixtureAnchor ''ram_slot'' ''RAM Slot 3'' (2, 0, 0) (0, 0, 0),
          fixtureAnchor ''ram_slot'' ''RAM Slot 1'' (0, 0, 0) (0, 0, 0),
          fixtureAnchor ''cpu_socket'' ''Socket'' (9, 0, 0) (0, 0, 0),
          fixtureAnchor ''ram_slot'' ''RAM Slot 4'' (4, 0, 0) (0, 0, 0),
          fixtureAnchor ''ram_slot'' ''RAM Slot 2'' (1, 0, 0) (0, 0, 0)]"
    by (simp add: fixtureRamBoard_def fixtureComponent_def)
  have h2: "mset (filter (\<lambda>a. api_name a = ''ram_slot'')
        [fixtureAnchor ''ram_slot'' ''RAM Slot 3'' (2, 0, 0) (0, 0, 0),
          fixtureAnchor ''ram_slot'' ''RAM Slot 1'' (0, 0, 0) (0, 0, 0),
          fixtureAnchor ''cpu_socket'' ''Socket'' (9, 0, 0) (0, 0, 0),
          fixtureAnchor ''ram_slot'' ''RAM Slot 4'' (4, 0, 0) (0, 0, 0),
          fixtureAnchor ''ram_slot'' ''RAM Slot 2'' (1, 0, 0) (0, 0, 0)]) =
       {#fixtureAnchor ''ram_slot'' ''RAM Slot 1'' (0, 0, 0) (0, 0, 0),
         fixtureAnchor ''ram_slot'' ''RAM Slot 2'' (1, 0, 0) (0, 0, 0),
         fixtureAnchor ''ram_slot'' ''RAM Slot 3'' (2, 0, 0) (0, 0, 0),
         fixtureAnchor ''ram_slot'' ''RAM Slot 4'' (4, 0, 0) (0, 0, 0)#}"
    by (simp add: fixtureAnchor_def)
  have l: "api_label (fixtureAnchor n lb p r) = lb" for n lb p r
    by (simp add: fixtureAnchor_def)
  note r = rr [OF h1 h2 l l l l]
  from r have three:
    "getRamTransforms (componentTransforms [fixtureRamBoard]) (Some fixtureRamBoard) 3 =
      map (\<lambda>s. slotTransform (transformOr (componentTransforms [fixtureRamBoard]) ''motherboard'')
                 (convertApiAnchor s))
        [fixtureAnchor ''ram_slot'' ''RAM Slot 1'' (0, 0, 0) (0, 0, 0),
         fixtureAnchor ''ram_slot'' ''RAM Slot 2'' (1, 0, 0) (0, 0, 0),
         fixtureAnchor ''ram_slot'' ''RAM Slot 3'' (2, 0, 0) (0, 0, 0)]"
    by (rule conjunct1)
  from r have six:
    "getRamTransforms (componentTransforms [fixtureRamBoard]) (Some fixtureRamBoard) 6 =
      map (\<lambda>s. slotTransform (transformOr (componentTransforms [fixtureRamBoard]) ''motherboard'')
                 (convertApiAnchor s))
        [fixtureAnchor ''ram_slot'' ''RAM Slot 1'' (0, 0, 0) (0, 0, 0),
         fixtureAnchor ''ram_slot'' ''RAM Slot 2'' (1, 0, 0) (0, 0, 0),
         fixtureAnchor ''ram_slot'' ''RAM Slot 3'' (2, 0, 0) (0, 0, 0),
         fixtureAnchor ''ram_slot'' ''RAM Slot 4'' (4, 0, 0) (0, 0, 0)]
      @ [fallbackTransform (transformOr (componentTransforms [fixtureRamBoard]) ''motherboard'') 4,
         fallbackTransform (transformOr (componentTransforms [fixtureRamBoard]) ''motherboard'') 5]"
    by (elim conjE)
  have p3: "map t_position
     (getRamTransforms (componentTransforms [fixtureRamBoard]) (Some fixtureRamBoard) 3)
     = [(0, 0, 0), (0.1, 0, 0), (0.2, 0, 0)]"
    unfolding three
    by (simp add: transformOr_def no_motherboard_transform orElse_def identityTransform_def
        slot_position fixtureAnchor_def applyEuler_identity scaled_def SCALE_FACTOR_def vadd_def)
  have p6: "map t_position
     (getRamTransforms (componentTransforms [fixtureRamBoard]) (Some fixtureRamBoard) 6)
     = [(0, 0, 0), (0.1, 0, 0), (0.2, 0, 0), (0.4, 0, 0), (2.7, 0.1, 0), (3, 0.1, 0)]"
    unfolding six
    by (simp add: transformOr_def no_motherboard_transform orElse_def identityTransform_def
        slot_position fallback_position fixtureAnchor_def applyEuler_identity scaled_def
        SCALE_FACTOR_def vadd_def)
  from p3 p6 show ?thesis by blast
qed

section \<open>Properties of the compatibility checks\<close>

lemma show_nat_300: "show_nat 300 = ''300''"
  by (simp add: show_nat.simps digit_char_def)

lemma numberToString_300: "numberToString other 300 = ''300''"
  by (simp add: numberToString_def show_nat_300)

lemma checkCompatibility_GPU:
  "checkCompatibility other ''GPU'' buildState product =
     (case gpuLengthCheck other ''GPU'' buildState product of
        Some v \<Rightarrow> v | None \<Rightarrow> \<lparr>compatible = True, reason = None\<rparr>)"
  by (simp add: checkCompatibility_def formFactorCheck_def socketCheck_def ramTypeCheck_def
      coolerHeightCheck_def split: option.splits)

lemma checkCompatibility_CPU:
  "checkCompatibility other ''CPU'' buildState product =
     (case socketCheck ''CPU'' buildState product of
        Some v \<Rightarrow> v | None \<Rightarrow> \<lparr>compatible = True, reason = None\<rparr>)"
  by (simp add: checkCompatibility_def formFactorCheck_def gpuLengthCheck_def ramTypeCheck_def
      coolerHeightCheck_def split: option.splits)

text \<open>
  Claim C6, as stated, fails: for length 350 against maximum 300 the reason is
  "GPU too long (max 300mm)", in which 350 does not occur; and a maximum of 0, though
  present, is falsy and skips the check.
\<close>

theorem gpu_length_verdict_counterexample:
  "checkCompatibility (\<lambda>r. []) ''GPU'' (fixtureCaseMax 300) (fixtureGpu 350) =
     \<lparr>compatible = False, reason = Some ''GPU too long (max 300mm)''\<rparr>
   \<and> \<not> str_includes ''GPU too long (max 300mm)'' ''350''
   \<and> checkCompatibility (\<lambda>r. []) ''GPU'' (fixtureCaseMax 0) (fixtureGpu 350) =
     \<lparr>compatible = True, reason = None\<rparr>"
  by (simp add: checkCompatibility_GPU gpuLengthCheck_def Let_def fixtureCaseMax_def
      fixtureGpu_def fixtureSelected_def fixtureProduct_def noSpecs_def attr_def
      numberToString_300)

text \<open>
  Claim C6, amended. In the GPU step, with a case selected and both
  \<^verbatim>\<open>max_gpu_length_mm\<close> of the case and \<^verbatim>\<open>length_mm\<close> of the candidate present: when
  both are non-zero and the length exceeds the maximum, the verdict is incompatible with
  the reason "GPU too long (max <max>mm)", which states the maximum and not the actual
  length; otherwise the verdict is compatible, with no reason.
\<close>

theorem gpu_length_verdict:
  assumes "buildState ''case'' = Some c"
      and "attr max_gpu_length_mm (technical_specs c) = Some mx"
      and "attr length_mm (product_technical_specs product) = Some len"
  shows "checkCompatibility other ''GPU'' buildState product =
           (if mx \<noteq> 0 \<and> len \<noteq> 0 \<and> len > mx
            then \<lparr>compatible = False,
                  reason = Some (''GPU too long (max '' @ numberToString other mx @ ''mm)'')\<rparr>
            else \<lparr>compatible = True, reason = None\<rparr>)"
  using assms by (simp add: checkCompatibility_GPU gpuLengthCheck_def Let_def)

theorem gpu_length_verdict_witness:
  "checkCompatibility (\<lambda>r. []) ''GPU'' (fixtureCaseMax 300) (fixtureGpu 350) =
     \<lparr>compatible = False, reason = Some ''GPU too long (max 300mm)''\<rparr>
   \<and> str_includes ''GPU too long (max 300mm)'' ''300''
   \<and> checkCompatibility (\<lambda>r. []) ''GPU'' (fixtureCaseMax 400) (fixtureGpu 350) =
     \<lparr>compatible = True, reason = None\<rparr>"
  using gpu_length_verdict [of "fixtureCaseMax 300"
      "fixtureSelected ''CASE'' (Some (noSpecs\<lparr>max_gpu_length_mm := Some 300\<rparr>))" 300
      "fixtureGpu 350" 350 "\<lambda>r. []"]
    gpu_length_verdict [of "fixtureCaseMax 400"
      "fixtureSelected ''CASE'' (Some (noSpecs\<lparr>max_gpu_length_mm := Some 400\<rparr>))" 400
      "fixtureGpu 350" 350 "\<lambda>r. []"]
  by (simp add: fixtureCaseMax_def fixtureGpu_def fixtureSelected_def fixtureProduct_def
      noSpecs_def attr_def numberToString_300)

lemma filterLoop_filter:
  "filterLoop parent result candidates =
     result @ filter (\<lambda>c. case TechnicalSpecsMap c ''socket'' of
                             Some (JString s) \<Rightarrow> socketMatches parent c s
                           | _ \<Rightarrow> True) candidates"
  by (induction candidates arbitrary: result) (auto split: option.splits json.splits)

text \<open>
  Claim C5. A candidate CPU without a \<^verbatim>\<open>socket\<close> attribute is excluded by neither
  stage. UI stage: for every build state the socket block falls through, and in the CPU
  step the verdict is compatible; an incompatible verdict in the CPU step means that the
  motherboard and the candidate both declare a socket and the two differ. Backend stage:
  a candidate with no \<^verbatim>\<open>socket\<close> key is in the filtered list; a candidate that the
  filter drops declares a socket string, and no compatible type of the parent's anchors
  equals that string or the candidate's category.
\<close>

theorem missing_socket_is_permissive:
  "(attr socket (product_technical_specs product) = None \<longrightarrow>
      socketCheck cat buildState product = None
      \<and> checkCompatibility other ''CPU'' buildState product = \<lparr>compatible = True, reason = None\<rparr>)
   \<and> (\<not> compatible (checkCompatibility other ''CPU'' buildState product) \<longrightarrow>
        (\<exists>m ms cs. buildState ''motherboard'' = Some m
           \<and> attr socket (technical_specs m) = Some ms
           \<and> attr socket (product_technical_specs product) = Some cs \<and> cs \<noteq> ms))
   \<and> (candidate \<in> set candidates \<and> TechnicalSpecsMap candidate ''socket'' = None \<longrightarrow>
        candidate \<in> set (FilterBySocketCompatibility parent candidates))
   \<and> (candidate \<in> set candidates
        \<and> candidate \<notin> set (FilterBySocketCompatibility parent candidates) \<longrightarrow>
        (\<exists>s. TechnicalSpecsMap candidate ''socket'' = Some (JString s)
           \<and> \<not> socketMatches parent candidate s))"
proof -
  have b1: "attr socket (product_technical_specs product) = None \<longrightarrow>
      socketCheck cat buildState product = None
      \<and> checkCompatibility other ''CPU'' buildState product = \<lparr>compatible = True, reason = None\<rparr>"
    by (simp add: checkCompatibility_CPU socketCheck_def Let_def split: option.splits)
  have b2: "\<not> compatible (checkCompatibility other ''CPU'' buildState product) \<longrightarrow>
        (\<exists>m ms cs. buildState ''motherboard'' = Some m
           \<and> attr socket (technical_specs m) = Some ms
           \<and> attr socket (product_technical_specs product) = Some cs \<and> cs \<noteq> ms)"
    by (auto simp: checkCompatibility_CPU socketCheck_def Let_def split: option.splits if_splits)
  have a1: "candidate \<in> set candidates \<and> TechnicalSpecsMap candidate ''socket'' = None \<longrightarrow>
        candidate \<in> set (FilterBySocketCompatibility parent candidates)"
    by (simp add: FilterBySocketCompatibility_def filterLoop_filter)
  have a2: "candidate \<in> set candidates
        \<and> candidate \<notin> set (FilterBySocketCompatibility parent candidates) \<longrightarrow>
        (\<exists>s. TechnicalSpecsMap candidate ''socket'' = Some (JString s)
           \<and> \<not> socketMatches parent candidate s)"
    by (auto simp: FilterBySocketCompatibility_def filterLoop_filter split: option.splits json.splits)
  from b1 b2 a1 a2 show ?thesis by blast
qed

theorem missing_socket_is_permissive_witness:
  "checkCompatibility (\<lambda>r. []) ''CPU'' fixtureBoardAM4 (fixtureProduct ''CPU'' (Some noSpecs)) =
     \<lparr>compatible = True, reason = None\<rparr>
   \<and> fixtureCandidate \<in> set (FilterBySocketCompatibility fixtureParent [fixtureCandidate])"
  using missing_socket_is_permissive [of "fixtureProduct ''CPU'' (Some noSpecs)" "''CPU''"
      fixtureBoardAM4 "\<lambda>r. []" fixtureCandidate "[fixtureCandidate]" fixtureParent]
  by (simp add: fixtureProduct_def noSpecs_def attr_def fixtureCandidate_def)


end
